theory Spec2Isabelle
  imports Main "HOL-Library.Sublist" "HOL-Library.Code_Target_Nat"
begin

section \<open>Python strings\<close>

text \<open>
  A Python \<open>str\<close> that a backend or a counterparty can produce is a sequence of Unicode
  code points: the type \<open>unicode\<close>, with a code point as a natural number. \<open>str\<close> turns a
  literal of the source into its code points. The texts of the schema model (names,
  descriptions, type words) stay \<^typ>\<open>string\<close> and are turned into code points where they
  enter a message. The tables below are those of Unicode 14.0, as CPython 3.11 has them.
  Printing is logging and is left out of the functions below, but for the call boundary
  of a tool, where it stands inside the \<open>try\<close> block.
\<close>

type_synonym unicode = "nat list"

definition str :: "string \<Rightarrow> unicode" where
  "str s = map of_char s"

text \<open>\<open>str.isspace\<close> of a character: the 29 white-space code points.\<close>

definition py_isspace :: "nat \<Rightarrow> bool" where
  "py_isspace c =
     ((0x9 \<le> c \<and> c \<le> 0xD) \<or> (0x1C \<le> c \<and> c \<le> 0x20) \<or> c = 0x85 \<or> c = 0xA0
      \<or> c = 0x1680 \<or> (0x2000 \<le> c \<and> c \<le> 0x200A) \<or> c = 0x2028 \<or> c = 0x2029
      \<or> c = 0x202F \<or> c = 0x205F \<or> c = 0x3000)"

definition whitespace :: "nat list" where
  "whitespace = [0x9, 0xA, 0xB, 0xC, 0xD, 0x1C, 0x1D, 0x1E, 0x1F, 0x20, 0x85, 0xA0, 0x1680,
     0x2000, 0x2001, 0x2002, 0x2003, 0x2004, 0x2005, 0x2006, 0x2007, 0x2008, 0x2009, 0x200A,
     0x2028, 0x2029, 0x202F, 0x205F, 0x3000]"

text \<open>
  The lowercase mapping of a code point. A row \<open>(lo, hi, step, target)\<close> of the table maps
  \<open>lo\<close>, \<open>lo + step\<close>, ... up to \<open>hi\<close> to \<open>target\<close>, \<open>target + step\<close>, ...; a code point in no
  row is its own lowercase. U+0130 alone has a lowercase of two code points. The ASCII
  range is answered without the table.
\<close>

definition lower_ranges :: "(nat \<times> nat \<times> nat \<times> nat) list" where
  "lower_ranges = [
     (0x41, 0x5A, 1, 0x61), (0xC0, 0xD6, 1, 0xE0), (0xD8, 0xDE, 1, 0xF8),
     (0x100, 0x12E, 2, 0x101), (0x132, 0x136, 2, 0x133), (0x139, 0x147, 2, 0x13A),
     (0x14A, 0x176, 2, 0x14B), (0x178, 0x178, 1, 0xFF), (0x179, 0x17D, 2, 0x17A),
     (0x181, 0x181, 1, 0x253), (0x182, 0x184, 2, 0x183), (0x186, 0x186, 1, 0x254),
     (0x187, 0x187, 1, 0x188), (0x189, 0x18A, 1, 0x256), (0x18B, 0x18B, 1, 0x18C),
     (0x18E, 0x18E, 1, 0x1DD), (0x18F, 0x18F, 1, 0x259), (0x190, 0x190, 1, 0x25B),
     (0x191, 0x191, 1, 0x192), (0x193, 0x193, 1, 0x260), (0x194, 0x194, 1, 0x263),
     (0x196, 0x196, 1, 0x269), (0x197, 0x197, 1, 0x268), (0x198, 0x198, 1, 0x199),
     (0x19C, 0x19C, 1, 0x26F), (0x19D, 0x19D, 1, 0x272), (0x19F, 0x19F, 1, 0x275),
     (0x1A0, 0x1A4, 2, 0x1A1), (0x1A6, 0x1A6, 1, 0x280), (0x1A7, 0x1A7, 1, 0x1A8),
     (0x1A9, 0x1A9, 1, 0x283), (0x1AC, 0x1AC, 1, 0x1AD), (0x1AE, 0x1AE, 1, 0x288),
     (0x1AF, 0x1AF, 1, 0x1B0), (0x1B1, 0x1B2, 1, 0x28A), (0x1B3, 0x1B5, 2, 0x1B4),
     (0x1B7, 0x1B7, 1, 0x292), (0x1B8, 0x1B8, 1, 0x1B9), (0x1BC, 0x1BC, 1, 0x1BD),
     (0x1C4, 0x1C4, 1, 0x1C6), (0x1C5, 0x1C5, 1, 0x1C6), (0x1C7, 0x1C7, 1, 0x1C9),
     (0x1C8, 0x1C8, 1, 0x1C9), (0x1CA, 0x1CA, 1, 0x1CC), (0x1CB, 0x1DB, 2, 0x1CC),
     (0x1DE, 0x1EE, 2, 0x1DF), (0x1F1, 0x1F1, 1, 0x1F3), (0x1F2, 0x1F4, 2, 0x1F3),
     (0x1F6, 0x1F6, 1, 0x195), (0x1F7, 0x1F7, 1, 0x1BF), (0x1F8, 0x21E, 2, 0x1F9),
     (0x220, 0x220, 1, 0x19E), (0x222, 0x232, 2, 0x223), (0x23A, 0x23A, 1, 0x2C65),
     (0x23B, 0x23B, 1, 0x23C), (0x23D, 0x23D, 1, 0x19A), (0x23E, 0x23E, 1, 0x2C66),
     (0x241, 0x241, 1, 0x242), (0x243, 0x243, 1, 0x180), (0x244, 0x244, 1, 0x289),
     (0x245, 0x245, 1, 0x28C), (0x246, 0x24E, 2, 0x247), (0x370, 0x372, 2, 0x371),
     (0x376, 0x376, 1, 0x377), (0x37F, 0x37F, 1, 0x3F3), (0x386, 0x386, 1, 0x3AC),
     (0x388, 0x38A, 1, 0x3AD), (0x38C, 0x38C, 1, 0x3CC), (0x38E, 0x38F, 1, 0x3CD),
     (0x391, 0x3A1, 1, 0x3B1), (0x3A3, 0x3AB, 1, 0x3C3), (0x3CF, 0x3CF, 1, 0x3D7),
     (0x3D8, 0x3EE, 2, 0x3D9), (0x3F4, 0x3F4, 1, 0x3B8), (0x3F7, 0x3F7, 1, 0x3F8),
     (0x3F9, 0x3F9, 1, 0x3F2), (0x3FA, 0x3FA, 1, 0x3FB), (0x3FD, 0x3FF, 1, 0x37B),
     (0x400, 0x40F, 1, 0x450), (0x410, 0x42F, 1, 0x430), (0x460, 0x480, 2, 0x461),
     (0x48A, 0x4BE, 2, 0x48B), (0x4C0, 0x4C0, 1, 0x4CF), (0x4C1, 0x4CD, 2, 0x4C2),
     (0x4D0, 0x52E, 2, 0x4D1), (0x531, 0x556, 1, 0x561), (0x10A0, 0x10C5, 1, 0x2D00),
     (0x10C7, 0x10C7, 1, 0x2D27), (0x10CD, 0x10CD, 1, 0x2D2D), (0x13A0, 0x13EF, 1, 0xAB70),
     (0x13F0, 0x13F5, 1, 0x13F8), (0x1C90, 0x1CBA, 1, 0x10D0), (0x1CBD, 0x1CBF, 1, 0x10FD),
     (0x1E00, 0x1E94, 2, 0x1E01), (0x1E9E, 0x1E9E, 1, 0xDF), (0x1EA0, 0x1EFE, 2, 0x1EA1),
     (0x1F08, 0x1F0F, 1, 0x1F00), (0x1F18, 0x1F1D, 1, 0x1F10), (0x1F28, 0x1F2F, 1, 0x1F20),
     (0x1F38, 0x1F3F, 1, 0x1F30), (0x1F48, 0x1F4D, 1, 0x1F40), (0x1F59, 0x1F5F, 2, 0x1F51),
     (0x1F68, 0x1F6F, 1, 0x1F60), (0x1F88, 0x1F8F, 1, 0x1F80), (0x1F98, 0x1F9F, 1, 0x1F90),
     (0x1FA8, 0x1FAF, 1, 0x1FA0), (0x1FB8, 0x1FB9, 1, 0x1FB0), (0x1FBA, 0x1FBB, 1, 0x1F70),
     (0x1FBC, 0x1FBC, 1, 0x1FB3), (0x1FC8, 0x1FCB, 1, 0x1F72), (0x1FCC, 0x1FCC, 1, 0x1FC3),
     (0x1FD8, 0x1FD9, 1, 0x1FD0), (0x1FDA, 0x1FDB, 1, 0x1F76), (0x1FE8, 0x1FE9, 1, 0x1FE0),
     (0x1FEA, 0x1FEB, 1, 0x1F7A), (0x1FEC, 0x1FEC, 1, 0x1FE5), (0x1FF8, 0x1FF9, 1, 0x1F78),
     (0x1FFA, 0x1FFB, 1, 0x1F7C), (0x1FFC, 0x1FFC, 1, 0x1FF3), (0x2126, 0x2126, 1, 0x3C9),
     (0x212A, 0x212A, 1, 0x6B), (0x212B, 0x212B, 1, 0xE5), (0x2132, 0x2132, 1, 0x214E),
     (0x2160, 0x216F, 1, 0x2170), (0x2183, 0x2183, 1, 0x2184), (0x24B6, 0x24CF, 1, 0x24D0),
     (0x2C00, 0x2C2F, 1, 0x2C30), (0x2C60, 0x2C60, 1, 0x2C61), (0x2C62, 0x2C62, 1, 0x26B),
     (0x2C63, 0x2C63, 1, 0x1D7D), (0x2C64, 0x2C64, 1, 0x27D), (0x2C67, 0x2C6B, 2, 0x2C68),
     (0x2C6D, 0x2C6D, 1, 0x251), (0x2C6E, 0x2C6E, 1, 0x271), (0x2C6F, 0x2C6F, 1, 0x250),
     (0x2C70, 0x2C70, 1, 0x252), (0x2C72, 0x2C72, 1, 0x2C73), (0x2C75, 0x2C75, 1, 0x2C76),
     (0x2C7E, 0x2C7F, 1, 0x23F), (0x2C80, 0x2CE2, 2, 0x2C81), (0x2CEB, 0x2CED, 2, 0x2CEC),
     (0x2CF2, 0x2CF2, 1, 0x2CF3), (0xA640, 0xA66C, 2, 0xA641), (0xA680, 0xA69A, 2, 0xA681),
     (0xA722, 0xA72E, 2, 0xA723), (0xA732, 0xA76E, 2, 0xA733), (0xA779, 0xA77B, 2, 0xA77A),
     (0xA77D, 0xA77D, 1, 0x1D79), (0xA77E, 0xA786, 2, 0xA77F), (0xA78B, 0xA78B, 1, 0xA78C),
     (0xA78D, 0xA78D, 1, 0x265), (0xA790, 0xA792, 2, 0xA791), (0xA796, 0xA7A8, 2, 0xA797),
     (0xA7AA, 0xA7AA, 1, 0x266), (0xA7AB, 0xA7AB, 1, 0x25C), (0xA7AC, 0xA7AC, 1, 0x261),
     (0xA7AD, 0xA7AD, 1, 0x26C), (0xA7AE, 0xA7AE, 1, 0x26A), (0xA7B0, 0xA7B0, 1, 0x29E),
     (0xA7B1, 0xA7B1, 1, 0x287), (0xA7B2, 0xA7B2, 1, 0x29D), (0xA7B3, 0xA7B3, 1, 0xAB53),
     (0xA7B4, 0xA7C2, 2, 0xA7B5), (0xA7C4, 0xA7C4, 1, 0xA794), (0xA7C5, 0xA7C5, 1, 0x282),
     (0xA7C6, 0xA7C6, 1, 0x1D8E), (0xA7C7, 0xA7C9, 2, 0xA7C8), (0xA7D0, 0xA7D0, 1, 0xA7D1),
     (0xA7D6, 0xA7D8, 2, 0xA7D7), (0xA7F5, 0xA7F5, 1, 0xA7F6), (0xFF21, 0xFF3A, 1, 0xFF41),
     (0x10400, 0x10427, 1, 0x10428), (0x104B0, 0x104D3, 1, 0x104D8),
     (0x10570, 0x10594, 2, 0x10597), (0x10571, 0x1057A, 1, 0x10598),
     (0x1057D, 0x1058A, 1, 0x105A4), (0x1058D, 0x10592, 1, 0x105B4),
     (0x10595, 0x10595, 1, 0x105BC), (0x10C80, 0x10CB2, 1, 0x10CC0),
     (0x118A0, 0x118BF, 1, 0x118C0), (0x16E40, 0x16E5F, 1, 0x16E60),
     (0x1E900, 0x1E921, 1, 0x1E922)]"

fun lookup_range :: "(nat \<times> nat \<times> nat \<times> nat) list \<Rightarrow> nat \<Rightarrow> nat option" where
  "lookup_range [] c = None"
| "lookup_range ((lo, hi, step, target) # rows) c =
     (if lo \<le> c \<and> c \<le> hi \<and> (c - lo) mod step = 0 then Some (target + (c - lo))
      else lookup_range rows c)"

definition to_lower_full :: "nat \<Rightarrow> unicode" where
  "to_lower_full c =
     (if c < 0x80 then [if 0x41 \<le> c \<and> c \<le> 0x5A then c + 0x20 else c]
      else if c = 0x130 then [0x69, 0x307]
      else case lookup_range lower_ranges c of Some d \<Rightarrow> [d] | None \<Rightarrow> [c])"

text \<open>
  A capital sigma (U+03A3) becomes the final sigma (U+03C2) when the character before it,
  the case-ignorable ones skipped, is cased and the character after it, the
  case-ignorable ones skipped, is not; otherwise the small sigma (U+03C3). Cased is asked
  only of a character that is not case-ignorable: the second table has the cased
  characters among those.
\<close>

definition case_ignorable_ranges :: "(nat \<times> nat) list" where
  "case_ignorable_ranges = [
     (0x27, 0x27), (0x2E, 0x2E), (0x3A, 0x3A), (0x5E, 0x5E), (0x60, 0x60), (0xA8, 0xA8),
     (0xAD, 0xAD), (0xAF, 0xAF), (0xB4, 0xB4), (0xB7, 0xB8), (0x2B0, 0x36F), (0x374, 0x375),
     (0x37A, 0x37A), (0x384, 0x385), (0x387, 0x387), (0x483, 0x489), (0x559, 0x559),
     (0x55F, 0x55F), (0x591, 0x5BD), (0x5BF, 0x5BF), (0x5C1, 0x5C2), (0x5C4, 0x5C5),
     (0x5C7, 0x5C7), (0x5F4, 0x5F4), (0x600, 0x605), (0x610, 0x61A), (0x61C, 0x61C),
     (0x640, 0x640), (0x64B, 0x65F), (0x670, 0x670), (0x6D6, 0x6DD), (0x6DF, 0x6E8),
     (0x6EA, 0x6ED), (0x70F, 0x70F), (0x711, 0x711), (0x730, 0x74A), (0x7A6, 0x7B0),
     (0x7EB, 0x7F5), (0x7FA, 0x7FA), (0x7FD, 0x7FD), (0x816, 0x82D), (0x859, 0x85B),
     (0x888, 0x888), (0x890, 0x891), (0x898, 0x89F), (0x8C9, 0x902), (0x93A, 0x93A),
     (0x93C, 0x93C), (0x941, 0x948), (0x94D, 0x94D), (0x951, 0x957), (0x962, 0x963),
     (0x971, 0x971), (0x981, 0x981), (0x9BC, 0x9BC), (0x9C1, 0x9C4), (0x9CD, 0x9CD),
     (0x9E2, 0x9E3), (0x9FE, 0x9FE), (0xA01, 0xA02), (0xA3C, 0xA3C), (0xA41, 0xA42),
     (0xA47, 0xA48), (0xA4B, 0xA4D), (0xA51, 0xA51), (0xA70, 0xA71), (0xA75, 0xA75),
     (0xA81, 0xA82), (0xABC, 0xABC), (0xAC1, 0xAC5), (0xAC7, 0xAC8), (0xACD, 0xACD),
     (0xAE2, 0xAE3), (0xAFA, 0xAFF), (0xB01, 0xB01), (0xB3C, 0xB3C), (0xB3F, 0xB3F),
     (0xB41, 0xB44), (0xB4D, 0xB4D), (0xB55, 0xB56), (0xB62, 0xB63), (0xB82, 0xB82),
     (0xBC0, 0xBC0), (0xBCD, 0xBCD), (0xC00, 0xC00), (0xC04, 0xC04), (0xC3C, 0xC3C),
     (0xC3E, 0xC40), (0xC46, 0xC48), (0xC4A, 0xC4D), (0xC55, 0xC56), (0xC62, 0xC63),
     (0xC81, 0xC81), (0xCBC, 0xCBC), (0xCBF, 0xCBF), (0xCC6, 0xCC6), (0xCCC, 0xCCD),
     (0xCE2, 0xCE3), (0xD00, 0xD01), (0xD3B, 0xD3C), (0xD41, 0xD44), (0xD4D, 0xD4D),
     (0xD62, 0xD63), (0xD81, 0xD81), (0xDCA, 0xDCA), (0xDD2, 0xDD4), (0xDD6, 0xDD6),
     (0xE31, 0xE31), (0xE34, 0xE3A), (0xE46, 0xE4E), (0xEB1, 0xEB1), (0xEB4, 0xEBC),
     (0xEC6, 0xEC6), (0xEC8, 0xECD), (0xF18, 0xF19), (0xF35, 0xF35), (0xF37, 0xF37),
     (0xF39, 0xF39), (0xF71, 0xF7E), (0xF80, 0xF84), (0xF86, 0xF87), (0xF8D, 0xF97),
     (0xF99, 0xFBC), (0xFC6, 0xFC6), (0x102D, 0x1030), (0x1032, 0x1037), (0x1039, 0x103A),
     (0x103D, 0x103E), (0x1058, 0x1059), (0x105E, 0x1060), (0x1071, 0x1074), (0x1082, 0x1082),
     (0x1085, 0x1086), (0x108D, 0x108D), (0x109D, 0x109D), (0x10FC, 0x10FC), (0x135D, 0x135F),
     (0x1712, 0x1714), (0x1732, 0x1733), (0x1752, 0x1753), (0x1772, 0x1773), (0x17B4, 0x17B5),
     (0x17B7, 0x17BD), (0x17C6, 0x17C6), (0x17C9, 0x17D3), (0x17D7, 0x17D7), (0x17DD, 0x17DD),
     (0x180B, 0x180F), (0x1843, 0x1843), (0x1885, 0x1886), (0x18A9, 0x18A9), (0x1920, 0x1922),
     (0x1927, 0x1928), (0x1932, 0x1932), (0x1939, 0x193B), (0x1A17, 0x1A18), (0x1A1B, 0x1A1B),
     (0x1A56, 0x1A56), (0x1A58, 0x1A5E), (0x1A60, 0x1A60), (0x1A62, 0x1A62), (0x1A65, 0x1A6C),
     (0x1A73, 0x1A7C), (0x1A7F, 0x1A7F), (0x1AA7, 0x1AA7), (0x1AB0, 0x1ACE), (0x1B00, 0x1B03),
     (0x1B34, 0x1B34), (0x1B36, 0x1B3A), (0x1B3C, 0x1B3C), (0x1B42, 0x1B42), (0x1B6B, 0x1B73),
     (0x1B80, 0x1B81), (0x1BA2, 0x1BA5), (0x1BA8, 0x1BA9), (0x1BAB, 0x1BAD), (0x1BE6, 0x1BE6),
     (0x1BE8, 0x1BE9), (0x1BED, 0x1BED), (0x1BEF, 0x1BF1), (0x1C2C, 0x1C33), (0x1C36, 0x1C37),
     (0x1C78, 0x1C7D), (0x1CD0, 0x1CD2), (0x1CD4, 0x1CE0), (0x1CE2, 0x1CE8), (0x1CED, 0x1CED),
     (0x1CF4, 0x1CF4), (0x1CF8, 0x1CF9), (0x1D2C, 0x1D6A), (0x1D78, 0x1D78), (0x1D9B, 0x1DFF),
     (0x1FBD, 0x1FBD), (0x1FBF, 0x1FC1), (0x1FCD, 0x1FCF), (0x1FDD, 0x1FDF), (0x1FED, 0x1FEF),
     (0x1FFD, 0x1FFE), (0x200B, 0x200F), (0x2018, 0x2019), (0x2024, 0x2024), (0x2027, 0x2027),
     (0x202A, 0x202E), (0x2060, 0x2064), (0x2066, 0x206F), (0x2071, 0x2071), (0x207F, 0x207F),
     (0x2090, 0x209C), (0x20D0, 0x20F0), (0x2C7C, 0x2C7D), (0x2CEF, 0x2CF1), (0x2D6F, 0x2D6F),
     (0x2D7F, 0x2D7F), (0x2DE0, 0x2DFF), (0x2E2F, 0x2E2F), (0x3005, 0x3005), (0x302A, 0x302D),
     (0x3031, 0x3035), (0x303B, 0x303B), (0x3099, 0x309E), (0x30FC, 0x30FE), (0xA015, 0xA015),
     (0xA4F8, 0xA4FD), (0xA60C, 0xA60C), (0xA66F, 0xA672), (0xA674, 0xA67D), (0xA67F, 0xA67F),
     (0xA69C, 0xA69F), (0xA6F0, 0xA6F1), (0xA700, 0xA721), (0xA770, 0xA770), (0xA788, 0xA78A),
     (0xA7F2, 0xA7F4), (0xA7F8, 0xA7F9), (0xA802, 0xA802), (0xA806, 0xA806), (0xA80B, 0xA80B),
     (0xA825, 0xA826), (0xA82C, 0xA82C), (0xA8C4, 0xA8C5), (0xA8E0, 0xA8F1), (0xA8FF, 0xA8FF),
     (0xA926, 0xA92D), (0xA947, 0xA951), (0xA980, 0xA982), (0xA9B3, 0xA9B3), (0xA9B6, 0xA9B9),
     (0xA9BC, 0xA9BD), (0xA9CF, 0xA9CF), (0xA9E5, 0xA9E6), (0xAA29, 0xAA2E), (0xAA31, 0xAA32),
     (0xAA35, 0xAA36), (0xAA43, 0xAA43), (0xAA4C, 0xAA4C), (0xAA70, 0xAA70), (0xAA7C, 0xAA7C),
     (0xAAB0, 0xAAB0), (0xAAB2, 0xAAB4), (0xAAB7, 0xAAB8), (0xAABE, 0xAABF), (0xAAC1, 0xAAC1),
     (0xAADD, 0xAADD), (0xAAEC, 0xAAED), (0xAAF3, 0xAAF4), (0xAAF6, 0xAAF6), (0xAB5B, 0xAB5F),
     (0xAB69, 0xAB6B), (0xABE5, 0xABE5), (0xABE8, 0xABE8), (0xABED, 0xABED), (0xFB1E, 0xFB1E),
     (0xFBB2, 0xFBC2), (0xFE00, 0xFE0F), (0xFE13, 0xFE13), (0xFE20, 0xFE2F), (0xFE52, 0xFE52),
     (0xFE55, 0xFE55), (0xFEFF, 0xFEFF), (0xFF07, 0xFF07), (0xFF0E, 0xFF0E), (0xFF1A, 0xFF1A),
     (0xFF3E, 0xFF3E), (0xFF40, 0xFF40), (0xFF70, 0xFF70), (0xFF9E, 0xFF9F), (0xFFE3, 0xFFE3),
     (0xFFF9, 0xFFFB), (0x101FD, 0x101FD), (0x102E0, 0x102E0), (0x10376, 0x1037A),
     (0x10780, 0x10785), (0x10787, 0x107B0), (0x107B2, 0x107BA), (0x10A01, 0x10A03),
     (0x10A05, 0x10A06), (0x10A0C, 0x10A0F), (0x10A38, 0x10A3A), (0x10A3F, 0x10A3F),
     (0x10AE5, 0x10AE6), (0x10D24, 0x10D27), (0x10EAB, 0x10EAC), (0x10F46, 0x10F50),
     (0x10F82, 0x10F85), (0x11001, 0x11001), (0x11038, 0x11046), (0x11070, 0x11070),
     (0x11073, 0x11074), (0x1107F, 0x11081), (0x110B3, 0x110B6), (0x110B9, 0x110BA),
     (0x110BD, 0x110BD), (0x110C2, 0x110C2), (0x110CD, 0x110CD), (0x11100, 0x11102),
     (0x11127, 0x1112B), (0x1112D, 0x11134), (0x11173, 0x11173), (0x11180, 0x11181),
     (0x111B6, 0x111BE), (0x111C9, 0x111CC), (0x111CF, 0x111CF), (0x1122F, 0x11231),
     (0x11234, 0x11234), (0x11236, 0x11237), (0x1123E, 0x1123E), (0x112DF, 0x112DF),
     (0x112E3, 0x112EA), (0x11300, 0x11301), (0x1133B, 0x1133C), (0x11340, 0x11340),
     (0x11366, 0x1136C), (0x11370, 0x11374), (0x11438, 0x1143F), (0x11442, 0x11444),
     (0x11446, 0x11446), (0x1145E, 0x1145E), (0x114B3, 0x114B8), (0x114BA, 0x114BA),
     (0x114BF, 0x114C0), (0x114C2, 0x114C3), (0x115B2, 0x115B5), (0x115BC, 0x115BD),
     (0x115BF, 0x115C0), (0x115DC, 0x115DD), (0x11633, 0x1163A), (0x1163D, 0x1163D),
     (0x1163F, 0x11640), (0x116AB, 0x116AB), (0x116AD, 0x116AD), (0x116B0, 0x116B5),
     (0x116B7, 0x116B7), (0x1171D, 0x1171F), (0x11722, 0x11725), (0x11727, 0x1172B),
     (0x1182F, 0x11837), (0x11839, 0x1183A), (0x1193B, 0x1193C), (0x1193E, 0x1193E),
     (0x11943, 0x11943), (0x119D4, 0x119D7), (0x119DA, 0x119DB), (0x119E0, 0x119E0),
     (0x11A01, 0x11A0A), (0x11A33, 0x11A38), (0x11A3B, 0x11A3E), (0x11A47, 0x11A47),
     (0x11A51, 0x11A56), (0x11A59, 0x11A5B), (0x11A8A, 0x11A96), (0x11A98, 0x11A99),
     (0x11C30, 0x11C36), (0x11C38, 0x11C3D), (0x11C3F, 0x11C3F), (0x11C92, 0x11CA7),
     (0x11CAA, 0x11CB0), (0x11CB2, 0x11CB3), (0x11CB5, 0x11CB6), (0x11D31, 0x11D36),
     (0x11D3A, 0x11D3A), (0x11D3C, 0x11D3D), (0x11D3F, 0x11D45), (0x11D47, 0x11D47),
     (0x11D90, 0x11D91), (0x11D95, 0x11D95), (0x11D97, 0x11D97), (0x11EF3, 0x11EF4),
     (0x13430, 0x13438), (0x16AF0, 0x16AF4), (0x16B30, 0x16B36), (0x16B40, 0x16B43),
     (0x16F4F, 0x16F4F), (0x16F8F, 0x16F9F), (0x16FE0, 0x16FE1), (0x16FE3, 0x16FE4),
     (0x1AFF0, 0x1AFF3), (0x1AFF5, 0x1AFFB), (0x1AFFD, 0x1AFFE), (0x1BC9D, 0x1BC9E),
     (0x1BCA0, 0x1BCA3), (0x1CF00, 0x1CF2D), (0x1CF30, 0x1CF46), (0x1D167, 0x1D169),
     (0x1D173, 0x1D182), (0x1D185, 0x1D18B), (0x1D1AA, 0x1D1AD), (0x1D242, 0x1D244),
     (0x1DA00, 0x1DA36), (0x1DA3B, 0x1DA6C), (0x1DA75, 0x1DA75), (0x1DA84, 0x1DA84),
     (0x1DA9B, 0x1DA9F), (0x1DAA1, 0x1DAAF), (0x1E000, 0x1E006), (0x1E008, 0x1E018),
     (0x1E01B, 0x1E021), (0x1E023, 0x1E024), (0x1E026, 0x1E02A), (0x1E130, 0x1E13D),
     (0x1E2AE, 0x1E2AE), (0x1E2EC, 0x1E2EF), (0x1E8D0, 0x1E8D6), (0x1E944, 0x1E94B),
     (0x1F3FB, 0x1F3FF), (0xE0001, 0xE0001), (0xE0020, 0xE007F), (0xE0100, 0xE01EF)]"

definition cased_ranges :: "(nat \<times> nat) list" where
  "cased_ranges = [
     (0x41, 0x5A), (0x61, 0x7A), (0xAA, 0xAA), (0xB5, 0xB5), (0xBA, 0xBA), (0xC0, 0xD6),
     (0xD8, 0xF6), (0xF8, 0x1BA), (0x1BC, 0x1BF), (0x1C4, 0x293), (0x295, 0x2AF),
     (0x370, 0x373), (0x376, 0x377), (0x37B, 0x37D), (0x37F, 0x37F), (0x386, 0x386),
     (0x388, 0x38A), (0x38C, 0x38C), (0x38E, 0x3A1), (0x3A3, 0x3F5), (0x3F7, 0x481),
     (0x48A, 0x52F), (0x531, 0x556), (0x560, 0x588), (0x10A0, 0x10C5), (0x10C7, 0x10C7),
     (0x10CD, 0x10CD), (0x10D0, 0x10FA), (0x10FD, 0x10FF), (0x13A0, 0x13F5), (0x13F8, 0x13FD),
     (0x1C80, 0x1C88), (0x1C90, 0x1CBA), (0x1CBD, 0x1CBF), (0x1D00, 0x1D2B), (0x1D6B, 0x1D77),
     (0x1D79, 0x1D9A), (0x1E00, 0x1F15), (0x1F18, 0x1F1D), (0x1F20, 0x1F45), (0x1F48, 0x1F4D),
     (0x1F50, 0x1F57), (0x1F59, 0x1F59), (0x1F5B, 0x1F5B), (0x1F5D, 0x1F5D), (0x1F5F, 0x1F7D),
     (0x1F80, 0x1FB4), (0x1FB6, 0x1FBC), (0x1FBE, 0x1FBE), (0x1FC2, 0x1FC4), (0x1FC6, 0x1FCC),
     (0x1FD0, 0x1FD3), (0x1FD6, 0x1FDB), (0x1FE0, 0x1FEC), (0x1FF2, 0x1FF4), (0x1FF6, 0x1FFC),
     (0x2102, 0x2102), (0x2107, 0x2107), (0x210A, 0x2113), (0x2115, 0x2115), (0x2119, 0x211D),
     (0x2124, 0x2124), (0x2126, 0x2126), (0x2128, 0x2128), (0x212A, 0x212D), (0x212F, 0x2134),
     (0x2139, 0x2139), (0x213C, 0x213F), (0x2145, 0x2149), (0x214E, 0x214E), (0x2160, 0x217F),
     (0x2183, 0x2184), (0x24B6, 0x24E9), (0x2C00, 0x2C7B), (0x2C7E, 0x2CE4), (0x2CEB, 0x2CEE),
     (0x2CF2, 0x2CF3), (0x2D00, 0x2D25), (0x2D27, 0x2D27), (0x2D2D, 0x2D2D), (0xA640, 0xA66D),
     (0xA680, 0xA69B), (0xA722, 0xA76F), (0xA771, 0xA787), (0xA78B, 0xA78E), (0xA790, 0xA7CA),
     (0xA7D0, 0xA7D1), (0xA7D3, 0xA7D3), (0xA7D5, 0xA7D9), (0xA7F5, 0xA7F6), (0xA7FA, 0xA7FA),
     (0xAB30, 0xAB5A), (0xAB60, 0xAB68), (0xAB70, 0xABBF), (0xFB00, 0xFB06), (0xFB13, 0xFB17),
     (0xFF21, 0xFF3A), (0xFF41, 0xFF5A), (0x10400, 0x1044F), (0x104B0, 0x104D3),
     (0x104D8, 0x104FB), (0x10570, 0x1057A), (0x1057C, 0x1058A), (0x1058C, 0x10592),
     (0x10594, 0x10595), (0x10597, 0x105A1), (0x105A3, 0x105B1), (0x105B3, 0x105B9),
     (0x105BB, 0x105BC), (0x10C80, 0x10CB2), (0x10CC0, 0x10CF2), (0x118A0, 0x118DF),
     (0x16E40, 0x16E7F), (0x1D400, 0x1D454), (0x1D456, 0x1D49C), (0x1D49E, 0x1D49F),
     (0x1D4A2, 0x1D4A2), (0x1D4A5, 0x1D4A6), (0x1D4A9, 0x1D4AC), (0x1D4AE, 0x1D4B9),
     (0x1D4BB, 0x1D4BB), (0x1D4BD, 0x1D4C3), (0x1D4C5, 0x1D505), (0x1D507, 0x1D50A),
     (0x1D50D, 0x1D514), (0x1D516, 0x1D51C), (0x1D51E, 0x1D539), (0x1D53B, 0x1D53E),
     (0x1D540, 0x1D544), (0x1D546, 0x1D546), (0x1D54A, 0x1D550), (0x1D552, 0x1D6A5),
     (0x1D6A8, 0x1D6C0), (0x1D6C2, 0x1D6DA), (0x1D6DC, 0x1D6FA), (0x1D6FC, 0x1D714),
     (0x1D716, 0x1D734), (0x1D736, 0x1D74E), (0x1D750, 0x1D76E), (0x1D770, 0x1D788),
     (0x1D78A, 0x1D7A8), (0x1D7AA, 0x1D7C2), (0x1D7C4, 0x1D7CB), (0x1DF00, 0x1DF09),
     (0x1DF0B, 0x1DF1E), (0x1E900, 0x1E943), (0x1F130, 0x1F149), (0x1F150, 0x1F169),
     (0x1F170, 0x1F189)]"

fun in_ranges :: "(nat \<times> nat) list \<Rightarrow> nat \<Rightarrow> bool" where
  "in_ranges [] c = False"
| "in_ranges ((lo, hi) # rows) c = (lo \<le> c \<and> c \<le> hi \<or> in_ranges rows c)"

definition is_case_ignorable :: "nat \<Rightarrow> bool" where
  "is_case_ignorable c = in_ranges case_ignorable_ranges c"

definition is_cased :: "nat \<Rightarrow> bool" where
  "is_cased c = in_ranges cased_ranges c"

text \<open>\<open>before\<close> is the text before the sigma, the nearest character first.\<close>

definition final_sigma :: "unicode \<Rightarrow> unicode \<Rightarrow> bool" where
  "final_sigma before after =
     (case dropWhile is_case_ignorable before of
        [] \<Rightarrow> False
      | c # _ \<Rightarrow>
          is_cased c \<and>
          (case dropWhile is_case_ignorable after of [] \<Rightarrow> True | d # _ \<Rightarrow> \<not> is_cased d))"

fun lower_from :: "unicode \<Rightarrow> unicode \<Rightarrow> unicode" where
  "lower_from before [] = []"
| "lower_from before (c # after) =
     (if c = 0x3A3 then [if final_sigma before after then 0x3C2 else 0x3C3]
      else to_lower_full c) @ lower_from (c # before) after"

definition py_lower :: "unicode \<Rightarrow> unicode" where
  "py_lower s = lower_from [] s"

definition py_strip :: "unicode \<Rightarrow> unicode" where
  "py_strip s = rev (dropWhile py_isspace (rev (dropWhile py_isspace s)))"

text \<open>The slice \<open>s[-n:]\<close> for a positive \<open>n\<close>: the last \<open>n\<close> characters, or all of a shorter text.\<close>

definition py_last :: "nat \<Rightarrow> 'a list \<Rightarrow> 'a list" where
  "py_last n s = drop (length s - n) s"

text \<open>The test \<open>pat in s\<close> on two texts: \<open>pat\<close> occurs in \<open>s\<close> as a contiguous block.\<close>

fun py_in :: "'a list \<Rightarrow> 'a list \<Rightarrow> bool" where
  "py_in pat [] = (pat = [])"
| "py_in pat (c # cs) = (prefix pat (c # cs) \<or> py_in pat cs)"

text \<open>
  \<open>s.replace(old, new)\<close>: the occurrences of \<open>old\<close> are found from the left and do not
  overlap; an empty \<open>old\<close> matches before every character and at the end.
\<close>

function py_replace :: "'a list \<Rightarrow> 'a list \<Rightarrow> 'a list \<Rightarrow> 'a list" where
  "py_replace old new s =
     (if old = [] then new @ concat (map (\<lambda>c. c # new) s)
      else if s = [] then []
      else if prefix old s then new @ py_replace old new (drop (length old) s)
      else hd s # py_replace old new (tl s))"
  by pat_completeness auto
termination
  by (relation "measure (\<lambda>(old, new, s). length s)") auto

declare py_replace.simps [simp del]

text \<open>\<open>sep.join(xs)\<close> on a list of texts.\<close>

fun py_join :: "'a list \<Rightarrow> 'a list list \<Rightarrow> 'a list" where
  "py_join sep [] = []"
| "py_join sep [x] = x"
| "py_join sep (x # y # ys) = x @ sep @ py_join sep (y # ys)"

section \<open>Errors and dictionaries\<close>

text \<open>
  The exceptions the modelled code raises. \<open>KeyError\<close> carries the missing key,
  \<open>ValueError\<close> its message, \<open>AttributeError\<close> the attribute that the object (or class)
  does not have, \<open>UnboundLocalError\<close> the local variable read before any assignment.
\<close>

datatype py_error =
    KeyError string
  | ValueError string
  | AttributeError string
  | UnboundLocalError string

text \<open>
  A parameter schema is a Python dict. The code reads and writes eight keys in all
  (\<open>type\<close>, \<open>name\<close>, \<open>description\<close>, \<open>required\<close>, \<open>values\<close>, \<open>enum\<close>, \<open>items\<close>,
  \<open>item_schema\<close>); the dict is the record of what is stored under each of them, \<open>None\<close>
  for a key that is absent. Two dicts are equal when they hold the same keys with the
  same contents, as two records are. The item schema of an array is a JSON value of some
  type \<open>'j\<close>, rendered by \<open>json.dumps\<close>, which is passed as a function.
\<close>

record 'j schema_dict =
  k_type :: "string option"
  k_name :: "string option"
  k_description :: "string option"
  k_required :: "bool option"
  k_values :: "string list option"
  k_enum :: "string list option"
  k_items :: "'j option"
  k_item_schema :: "'j option"

definition empty_dict :: "'j schema_dict" where
  "empty_dict = \<lparr>k_type = None, k_name = None, k_description = None, k_required = None,
     k_values = None, k_enum = None, k_items = None, k_item_schema = None\<rparr>"

text \<open>\<open>d[key]\<close>: the content, or \<open>KeyError\<close> for an absent key.\<close>

definition getitem :: "'a option \<Rightarrow> string \<Rightarrow> py_error + 'a" where
  "getitem entry key = (case entry of None \<Rightarrow> Inl (KeyError key) | Some v \<Rightarrow> Inr v)"

section \<open>Parameters and their renderings (toolformers/base.py)\<close>

text \<open>
  The four subclasses of \<open>Parameter\<close>, each with the arguments of its \<open>__init__\<close> in
  their order. The fields are typed as the data model has them: name and description
  are texts, required is a boolean, the values of an enum are a list of texts.
\<close>

datatype 'j parameter =
    StringParameter string string bool
  | EnumParameter string string "string list" bool
  | NumberParameter string string bool
  | ArrayParameter string string bool 'j

fun name :: "'j parameter \<Rightarrow> string" where
  "name (StringParameter n d r) = n"
| "name (EnumParameter n d vs r) = n"
| "name (NumberParameter n d r) = n"
| "name (ArrayParameter n d r i) = n"

fun description :: "'j parameter \<Rightarrow> string" where
  "description (StringParameter n d r) = d"
| "description (EnumParameter n d vs r) = d"
| "description (NumberParameter n d r) = d"
| "description (ArrayParameter n d r i) = d"

fun required :: "'j parameter \<Rightarrow> bool" where
  "required (StringParameter n d r) = r"
| "required (EnumParameter n d vs r) = r"
| "required (NumberParameter n d r) = r"
| "required (ArrayParameter n d r i) = r"

fun as_openai_info :: "'j parameter \<Rightarrow> 'j schema_dict" where
  "as_openai_info (StringParameter n d r) =
     empty_dict\<lparr>k_type := Some ''string'', k_name := Some n, k_description := Some d\<rparr>"
| "as_openai_info (EnumParameter n d vs r) =
     empty_dict\<lparr>k_type := Some ''string'', k_description := Some d, k_values := Some vs\<rparr>"
| "as_openai_info (NumberParameter n d r) =
     empty_dict\<lparr>k_type := Some ''number'', k_description := Some d\<rparr>"
| "as_openai_info (ArrayParameter n d r i) =
     empty_dict\<lparr>k_type := Some ''array'', k_description := Some d, k_items := Some i\<rparr>"

fun as_standard_api :: "'j parameter \<Rightarrow> 'j schema_dict" where
  "as_standard_api (StringParameter n d r) =
     empty_dict\<lparr>k_type := Some ''string'', k_name := Some n, k_description := Some d,
       k_required := Some r\<rparr>"
| "as_standard_api (EnumParameter n d vs r) =
     empty_dict\<lparr>k_type := Some ''enum'', k_name := Some n, k_description := Some d,
       k_values := Some vs, k_required := Some r\<rparr>"
| "as_standard_api (NumberParameter n d r) =
     empty_dict\<lparr>k_type := Some ''number'', k_name := Some n, k_description := Some d,
       k_required := Some r\<rparr>"
| "as_standard_api (ArrayParameter n d r i) =
     empty_dict\<lparr>k_type := Some ''array'', k_name := Some n, k_description := Some d,
       k_required := Some r, k_item_schema := Some i\<rparr>"

text \<open>
  The two text renderings are f-strings. \<open>json_dumps\<close> is \<open>json.dumps\<close> with its \<open>indent\<close>
  argument (\<open>None\<close> when the call gives none).
\<close>

fun as_natural_language :: "(nat option \<Rightarrow> 'j \<Rightarrow> string) \<Rightarrow> 'j parameter \<Rightarrow> string" where
  "as_natural_language json_dumps (StringParameter n d r) =
     n @ '' (string'' @ (if r then '', required'' else []) @ ''): '' @ d @ ''.''"
| "as_natural_language json_dumps (EnumParameter n d vs r) =
     n @ '' (enum'' @ (if r then '', required'' else []) @ ''): '' @ d
       @ ''. Possible values: '' @ py_join '', '' vs"
| "as_natural_language json_dumps (NumberParameter n d r) =
     n @ '' (number): '' @ d"
| "as_natural_language json_dumps (ArrayParameter n d r i) =
     n @ '' (array): '' @ d @ ''. Each item should follow the JSON schema: ''
       @ json_dumps None i"

fun as_documented_python :: "(nat option \<Rightarrow> 'j \<Rightarrow> string) \<Rightarrow> 'j parameter \<Rightarrow> string" where
  "as_documented_python json_dumps (StringParameter n d r) =
     n @ '' (str'' @ (if r then '', required'' else []) @ ''): '' @ d @ ''.''"
| "as_documented_python json_dumps (EnumParameter n d vs r) =
     n @ '' (str'' @ (if r then '', required'' else []) @ ''): '' @ d
       @ ''. Possible values: '' @ py_join '', '' vs"
| "as_documented_python json_dumps (NumberParameter n d r) =
     n @ '' (number): '' @ d"
| "as_documented_python json_dumps (ArrayParameter n d r i) =
     n @ '' (list): '' @ d @ ''. Each item should follow the JSON schema: ''
       @ json_dumps None i"

text \<open>
  \<open>from_standard_api\<close> is a static method, looked up on the class it is called on.
  \<open>StringParameter\<close> and \<open>EnumParameter\<close> define it; \<open>NumberParameter\<close>, \<open>ArrayParameter\<close>
  and their base class \<open>Parameter\<close> do not, so the lookup on these two classes raises
  \<open>AttributeError\<close>. The arguments of the constructor call are evaluated from the left,
  so the first absent key is the one reported.
\<close>

datatype parameter_class =
  StringParameter_class | EnumParameter_class | NumberParameter_class | ArrayParameter_class

fun class_of :: "'j parameter \<Rightarrow> parameter_class" where
  "class_of (StringParameter n d r) = StringParameter_class"
| "class_of (EnumParameter n d vs r) = EnumParameter_class"
| "class_of (NumberParameter n d r) = NumberParameter_class"
| "class_of (ArrayParameter n d r i) = ArrayParameter_class"

fun from_standard_api :: "parameter_class \<Rightarrow> 'j schema_dict \<Rightarrow> py_error + 'j parameter" where
  "from_standard_api StringParameter_class api_info =
     (case getitem (k_name api_info) ''name'' of Inl e \<Rightarrow> Inl e | Inr n \<Rightarrow>
      case getitem (k_description api_info) ''description'' of Inl e \<Rightarrow> Inl e | Inr d \<Rightarrow>
      case getitem (k_required api_info) ''required'' of Inl e \<Rightarrow> Inl e | Inr r \<Rightarrow>
        Inr (StringParameter n d r))"
| "from_standard_api EnumParameter_class api_info =
     (case getitem (k_name api_info) ''name'' of Inl e \<Rightarrow> Inl e | Inr n \<Rightarrow>
      case getitem (k_description api_info) ''description'' of Inl e \<Rightarrow> Inl e | Inr d \<Rightarrow>
      case getitem (k_values api_info) ''values'' of Inl e \<Rightarrow> Inl e | Inr vs \<Rightarrow>
      case getitem (k_required api_info) ''required'' of Inl e \<Rightarrow> Inl e | Inr r \<Rightarrow>
        Inr (EnumParameter n d vs r))"
| "from_standard_api NumberParameter_class api_info = Inl (AttributeError ''from_standard_api'')"
| "from_standard_api ArrayParameter_class api_info = Inl (AttributeError ''from_standard_api'')"

text \<open>
  \<open>parameter_from_openai_api\<close>: the branches in the order of the source. The test
  \<open>'enum' in schema\<close> comes first and does not look at the type; \<open>schema['type']\<close> is read
  by the first \<open>elif\<close> that is reached.
\<close>

definition parameter_from_openai_api ::
  "string \<Rightarrow> 'j schema_dict \<Rightarrow> bool \<Rightarrow> py_error + 'j parameter" where
  "parameter_from_openai_api parameter_name schema req =
     (case k_enum schema of
        Some vs \<Rightarrow>
          (case getitem (k_description schema) ''description'' of Inl e \<Rightarrow> Inl e | Inr d \<Rightarrow>
             Inr (EnumParameter parameter_name d vs req))
      | None \<Rightarrow>
          (case getitem (k_type schema) ''type'' of Inl e \<Rightarrow> Inl e | Inr t \<Rightarrow>
             if t = ''string'' then
               (case getitem (k_description schema) ''description'' of Inl e \<Rightarrow> Inl e | Inr d \<Rightarrow>
                  Inr (StringParameter parameter_name d req))
             else if t = ''number'' then
               (case getitem (k_description schema) ''description'' of Inl e \<Rightarrow> Inl e | Inr d \<Rightarrow>
                  Inr (NumberParameter parameter_name d req))
             else if t = ''array'' then
               (case getitem (k_description schema) ''description'' of Inl e \<Rightarrow> Inl e | Inr d \<Rightarrow>
                case getitem (k_items schema) ''items'' of Inl e \<Rightarrow> Inl e | Inr i \<Rightarrow>
                  Inr (ArrayParameter parameter_name d req i))
             else Inl (ValueError (''Unknown parameter type: '' @ t))))"

section \<open>Tools (toolformers/base.py)\<close>

text \<open>
  What a call of the wrapped function does: it returns a value or raises. Of a raised
  exception the code sees whether it is an instance of \<open>Exception\<close> (\<open>SystemExit\<close>,
  \<open>KeyboardInterrupt\<close> and \<open>GeneratorExit\<close> are not) and what \<open>str(e)\<close> gives, which is a
  text or another exception raised by \<open>__str__\<close>. A returned value is a text or some other
  value.
\<close>

datatype raised = Exception "raised + unicode" | NonException "raised + unicode"

fun str_of :: "raised \<Rightarrow> raised + unicode" where
  "str_of (Exception s) = s"
| "str_of (NonException s) = s"

datatype 'r py_value = Text unicode | Other 'r

datatype 'r outcome = Returns "'r py_value" | Raises raised

record ('j, 'a, 'r) tool =
  t_name :: string
  t_description :: string
  t_parameters :: "'j parameter list"
  t_function :: "'a \<Rightarrow> 'r outcome"
  t_output_schema :: "'j option"

text \<open>
  The console: how the fields of the f-strings are formatted, and the standard output.
  Formatting a text gives the text; formatting the arguments (the tuple \<open>args\<close> and the
  dict \<open>kwargs\<close>, here one value) or a reply that is no text runs code of the value and may
  raise. \<open>write_line\<close> is what \<open>print\<close> does to the standard output \<open>'o\<close>: it gives the new
  state and the exception it raised, if any.
\<close>

record ('a, 'r, 'o) console =
  format_args :: "'a \<Rightarrow> raised + unicode \<times> unicode"
  format_reply :: "'r \<Rightarrow> raised + unicode"
  write_line :: "unicode \<Rightarrow> 'o \<Rightarrow> raised option \<times> 'o"

fun format_value :: "('a, 'r, 'o) console \<Rightarrow> 'r py_value \<Rightarrow> raised + unicode" where
  "format_value io (Text t) = Inr t"
| "format_value io (Other r) = format_reply io r"

text \<open>
  The handler \<open>except Exception as e\<close>: the print formats \<open>e\<close>, and what the print raises
  leaves the function; then the text is returned.
\<close>

definition except_Exception ::
  "('a, 'r, 'o) console \<Rightarrow> ('j, 'a, 'r) tool \<Rightarrow> raised \<Rightarrow> 'o \<Rightarrow> 'r outcome \<times> 'o" where
  "except_Exception io self e out =
     (case str_of e of
        Inl x \<Rightarrow> (Raises x, out)
      | Inr t \<Rightarrow>
          (case write_line io
                  (str ''Tool '' @ str (t_name self) @ str '' failed with exception: '' @ t) out of
             (Some x, out') \<Rightarrow> (Raises x, out')
           | (None, out') \<Rightarrow> (Returns (Text (str ''Tool call failed: '' @ t)), out')))"

text \<open>What is raised inside the \<open>try\<close> block: the handler takes the instances of \<open>Exception\<close>.\<close>

definition raised_in_try ::
  "('a, 'r, 'o) console \<Rightarrow> ('j, 'a, 'r) tool \<Rightarrow> raised \<Rightarrow> 'o \<Rightarrow> 'r outcome \<times> 'o" where
  "raised_in_try io self x out =
     (case x of
        Exception s \<Rightarrow> except_Exception io self x out
      | NonException s \<Rightarrow> (Raises x, out))"

text \<open>
  \<open>call_tool_for_toolformer\<close>: the first print stands before the \<open>try\<close>; the call of the
  function and the print of its reply stand inside.
\<close>

definition call_tool_for_toolformer ::
  "('a, 'r, 'o) console \<Rightarrow> ('j, 'a, 'r) tool \<Rightarrow> 'a \<Rightarrow> 'o \<Rightarrow> 'r outcome \<times> 'o" where
  "call_tool_for_toolformer io self args out =
     (case format_args io args of
        Inl x \<Rightarrow> (Raises x, out)
      | Inr (args_text, kwargs_text) \<Rightarrow>
          (case write_line io
                  (str ''Toolformer called tool '' @ str (t_name self) @ str '' with args ''
                     @ args_text @ str '' and kwargs '' @ kwargs_text) out of
             (Some x, out1) \<Rightarrow> (Raises x, out1)
           | (None, out1) \<Rightarrow>
               (case t_function self args of
                  Raises x \<Rightarrow> raised_in_try io self x out1
                | Returns tool_reply \<Rightarrow>
                    (case format_value io tool_reply of
                       Inl x \<Rightarrow> raised_in_try io self x out1
                     | Inr reply_text \<Rightarrow>
                         (case write_line io
                                 (str ''Tool '' @ str (t_name self) @ str '' returned: ''
                                    @ reply_text) out1 of
                            (Some x, out2) \<Rightarrow> raised_in_try io self x out2
                          | (None, out2) \<Rightarrow> (Returns tool_reply, out2))))))"

text \<open>
  \<open>Tool.as_documented_python\<close>. The last f-string of the source starts with \<open>\R\<close>, which is
  no escape sequence of Python: the text holds a backslash (0x5C) and the letter.
\<close>

definition Tool_as_documented_python ::
  "(nat option \<Rightarrow> 'j \<Rightarrow> string) \<Rightarrow> ('j, 'a, 'r) tool \<Rightarrow> string" where
  "Tool_as_documented_python json_dumps self =
     (let documented_python =
            ''Tool '' @ t_name self @ '':'' @ [CHR 0x0A, CHR 0x0A] @ t_description self
              @ [CHR 0x0A] @ ''Parameters:'' @ [CHR 0x0A];
          documented_python =
            (if length (t_parameters self) = 0 then documented_python @ ''No parameters.''
             else foldl (\<lambda>acc p. acc @ [CHR 0x09] @ as_documented_python json_dumps p @ [CHR 0x0A])
                    documented_python (t_parameters self))
      in case t_output_schema self of
           None \<Rightarrow> documented_python
         | Some output_schema \<Rightarrow>
             documented_python @ [CHR 0x5C] @ ''Returns a dictionary with schema: ''
               @ json_dumps (Some 2) output_schema)"

section \<open>The reasoning backend and the helpers of \<open>utils\<close>\<close>

text \<open>
  A toolformer opens a conversation from a system prompt and a category tag (every call
  below passes the empty tool list), and a conversation answers a message with a reply.
  The conversation keeps its history: \<open>chat\<close> takes the state of the conversation and
  returns the new one with the reply. The system prompts are module constants whose
  wording no property below depends on; each function takes its prompt as an argument.
\<close>

record 'c toolformer =
  new_conversation :: "unicode \<Rightarrow> unicode \<Rightarrow> 'c"
  chat :: "'c \<Rightarrow> unicode \<Rightarrow> unicode \<times> 'c"

text \<open>
  The modules \<open>utils\<close> and \<open>common.core\<close> are not among the sources. What the negotiator
  and the programmer call of them is passed in: \<open>extract_substring text start end\<close>
  (\<open>None\<close> when no block is found), \<open>extract_metadata\<close>, the text \<open>str\<close> gives of the
  \<open>TaskSchema\<close> made by \<open>from_taskschemalike\<close>, and \<open>json.dumps\<close> of a task schema.
\<close>

record ('m, 'ts) library =
  extract_substring :: "unicode \<Rightarrow> unicode \<Rightarrow> unicode \<Rightarrow> unicode option"
  extract_metadata :: "unicode \<Rightarrow> 'm"
  task_schema_str :: "'ts \<Rightarrow> unicode"
  json_dumps_schema :: "'ts \<Rightarrow> unicode"

text \<open>
  Modelled from the spec: \<open>utils.extract_substring\<close> is missing from the sources. The spec
  has a block as the text delimited by an opening and a closing tag, and extraction
  failing when the delimiters do not match or the closing tag is missing. Here the block
  is what stands between the first opening tag and the first closing tag after it. The
  theorems below hold for every \<open>extract_substring\<close>; this one makes their instances
  concrete.
\<close>

fun text_after :: "'a list \<Rightarrow> 'a list \<Rightarrow> 'a list option" where
  "text_after tag [] = (if tag = [] then Some [] else None)"
| "text_after tag (c # cs) =
     (if prefix tag (c # cs) then Some (drop (length tag) (c # cs)) else text_after tag cs)"

fun text_before :: "'a list \<Rightarrow> 'a list \<Rightarrow> 'a list option" where
  "text_before tag [] = (if tag = [] then Some [] else None)"
| "text_before tag (c # cs) =
     (if prefix tag (c # cs) then Some [] else map_option ((#) c) (text_before tag cs))"

definition delimited_block :: "'a list \<Rightarrow> 'a list \<Rightarrow> 'a list \<Rightarrow> 'a list option" where
  "delimited_block text start_tag end_tag =
     (case text_after start_tag text of
        None \<Rightarrow> None
      | Some rest \<Rightarrow> text_before end_tag rest)"

section \<open>The feasibility checker (receiver/components/protocol_checker.py)\<close>

text \<open>The expression the checker prints as \<open>Parsed decision\<close> and returns.\<close>

definition parsed_decision :: "unicode \<Rightarrow> bool" where
  "parsed_decision reply = py_in (str ''yes'') (py_last 10 (py_strip (py_lower reply)))"

definition checker_message ::
  "(nat option \<Rightarrow> 'j \<Rightarrow> string) \<Rightarrow> unicode \<Rightarrow> ('j, 'a, 'r) tool list \<Rightarrow> unicode" where
  "checker_message json_dumps protocol_document tools =
     (let message = str ''Protocol document:'' @ [0xA, 0xA] @ protocol_document
            @ [0xA, 0xA] @ str ''Functions that the implementer will have access to:''
            @ [0xA, 0xA]
      in if length tools = 0 then message @ str ''No additional functions provided''
         else foldl (\<lambda>acc t. acc @ str (Tool_as_documented_python json_dumps t) @ [0xA, 0xA])
                message tools)"

definition ReceiverProtocolChecker_call ::
  "'c toolformer \<Rightarrow> (nat option \<Rightarrow> 'j \<Rightarrow> string) \<Rightarrow> unicode \<Rightarrow> unicode
     \<Rightarrow> ('j, 'a, 'r) tool list \<Rightarrow> bool" where
  "ReceiverProtocolChecker_call tf json_dumps CHECKER_TOOL_PROMPT protocol_document tools =
     (let message = checker_message json_dumps protocol_document tools;
          conversation = new_conversation tf CHECKER_TOOL_PROMPT (str ''protocolChecking'');
          reply = fst (chat tf conversation message)
      in parsed_decision reply)"

text \<open>
  The decision rule in the words of the specification: the text \<open>yes\<close>, compared without
  regard to case, occurs in the last 10 characters of the trimmed reply. Two characters
  are the same letter when \<open>lower\<close> makes the same text of them.
\<close>

definition same_letter :: "nat \<Rightarrow> nat \<Rightarrow> bool" where
  "same_letter a b = (py_lower [a] = py_lower [b])"

fun occurs_ignoring_case :: "unicode \<Rightarrow> unicode \<Rightarrow> bool" where
  "occurs_ignoring_case pat [] = (pat = [])"
| "occurs_ignoring_case pat (c # cs) =
     (list_all2 same_letter pat (take (length pat) (c # cs)) \<or> occurs_ignoring_case pat cs)"

definition yes_in_tail :: "unicode \<Rightarrow> bool" where
  "yes_in_tail reply = occurs_ignoring_case (str ''yes'') (py_last 10 (py_strip reply))"

section \<open>The negotiator (sender/components/negotiator.py)\<close>

text \<open>
  The answer of the callback is a dict read under the keys \<open>status\<close>, \<open>body\<close> and
  \<open>message\<close>. The callback is the other party: it has a state of its own.
\<close>

record response =
  r_status :: "unicode option"
  r_body :: "unicode option"
  r_message :: "unicode option"

text \<open>
  \<open>Protocol(protocol, [], metadata)\<close>: the class is in \<open>common.core\<close>; the record holds the
  three arguments of the constructor call.
\<close>

record 'm protocol =
  p_document :: unicode
  p_sources :: "unicode list"
  p_metadata :: 'm

text \<open>
  The \<open>for\<close> loop, with the number of rounds left. A round is one call of the
  conversation. Beside \<open>found_protocol\<close> the function returns the rounds it made, each as
  the message sent to the backend and the reply received: the source keeps no such list,
  it is there to state how many rounds were made and what they exchanged.
\<close>

fun negotiation_rounds ::
  "'c toolformer \<Rightarrow> ('m, 'ts) library \<Rightarrow> ('k \<Rightarrow> unicode \<Rightarrow> response \<times> 'k) \<Rightarrow> nat
     \<Rightarrow> 'c \<Rightarrow> 'k \<Rightarrow> unicode \<Rightarrow> (unicode \<times> unicode) list
     \<Rightarrow> py_error + ('m protocol option \<times> (unicode \<times> unicode) list)" where
  "negotiation_rounds tf lib callback 0 conversation k other_message rounds = Inr (None, rounds)"
| "negotiation_rounds tf lib callback (Suc i) conversation k other_message rounds =
     (case chat tf conversation other_message of (message, conversation') \<Rightarrow>
      case extract_substring lib message (str ''<FINALPROTOCOL>'') (str ''</FINALPROTOCOL>'') of
        None \<Rightarrow>
          (case callback k message of (response, k') \<Rightarrow>
           case getitem (r_status response) ''status'' of Inl e \<Rightarrow> Inl e | Inr status \<Rightarrow>
             if status = str ''success'' then
               (case getitem (r_body response) ''body'' of Inl e \<Rightarrow> Inl e | Inr body \<Rightarrow>
                  negotiation_rounds tf lib callback i conversation' k' body
                    (rounds @ [(other_message, message)]))
             else
               (case getitem (r_message response) ''message'' of Inl e \<Rightarrow> Inl e | Inr reason \<Rightarrow>
                  negotiation_rounds tf lib callback i conversation' k'
                    (str ''Error interacting with the other party: '' @ reason)
                    (rounds @ [(other_message, message)])))
      | Some protocol \<Rightarrow>
          Inr (Some \<lparr>p_document = protocol, p_sources = [],
                     p_metadata = extract_metadata lib protocol\<rparr>,
               rounds @ [(other_message, message)]))"

text \<open>
  The prompt of the negotiator, and the function. \<open>range(max_rounds)\<close> is empty for a
  \<open>max_rounds\<close> of zero or less.
\<close>

definition negotiator_prompt :: "('m, 'ts) library \<Rightarrow> unicode \<Rightarrow> 'ts \<Rightarrow> unicode \<Rightarrow> unicode" where
  "negotiator_prompt lib TASK_NEGOTIATOR_PROMPT task_schema additional_info =
     (let prompt = TASK_NEGOTIATOR_PROMPT @ [0xA]
            @ str ''The JSON schema of the task is the following:'' @ [0xA, 0xA]
            @ task_schema_str lib task_schema
      in if additional_info \<noteq> [] then prompt @ [0xA, 0xA] @ additional_info
         else prompt)"

definition negotiate_protocol_for_task ::
  "'c toolformer \<Rightarrow> ('m, 'ts) library \<Rightarrow> unicode \<Rightarrow> int \<Rightarrow> 'ts
     \<Rightarrow> ('k \<Rightarrow> unicode \<Rightarrow> response \<times> 'k) \<Rightarrow> 'k \<Rightarrow> unicode
     \<Rightarrow> py_error + ('m protocol option \<times> (unicode \<times> unicode) list)" where
  "negotiate_protocol_for_task tf lib TASK_NEGOTIATOR_PROMPT max_rounds task_schema callback k
       additional_info =
     (let prompt = negotiator_prompt lib TASK_NEGOTIATOR_PROMPT task_schema additional_info;
          conversation = new_conversation tf prompt (str ''negotiation'')
      in negotiation_rounds tf lib callback (nat max_rounds) conversation k
           (str ''Hello! How may I help you?'') [])"

text \<open>A response the loop can read: a status, and the body or the reason that goes with it.\<close>

definition readable :: "response \<Rightarrow> bool" where
  "readable r =
     (case r_status r of
        None \<Rightarrow> False
      | Some status \<Rightarrow>
          if status = str ''success'' then r_body r \<noteq> None else r_message r \<noteq> None)"

text \<open>The exchange of a round holds a reply without a final protocol block.\<close>

definition no_block :: "('m, 'ts) library \<Rightarrow> unicode \<times> unicode \<Rightarrow> bool" where
  "no_block lib x =
     (extract_substring lib (snd x) (str ''<FINALPROTOCOL>'') (str ''</FINALPROTOCOL>'') = None)"

section \<open>The programmer (sender/components/programmer.py)\<close>

text \<open>
  The local variable \<open>implementation\<close> is assigned in the body of the loop only: after a
  loop of no iteration it is unbound, after a loop that never extracted a block it is
  \<open>None\<close>.
\<close>

datatype 'a local_variable = Unbound | Bound 'a

definition fence :: unicode where
  "fence = [0x60, 0x60, 0x60]"

definition nudge :: unicode where
  "nudge = str ''You have not provided an implementation yet. Please provide one by surrounding it in the tags <IMPLEMENTATION> and </IMPLEMENTATION>.''"

fun programmer_attempts ::
  "'c toolformer \<Rightarrow> ('m, 'ts) library \<Rightarrow> nat \<Rightarrow> 'c \<Rightarrow> unicode
     \<Rightarrow> unicode option local_variable \<Rightarrow> unicode option local_variable" where
  "programmer_attempts tf lib 0 conversation message implementation = implementation"
| "programmer_attempts tf lib (Suc i) conversation message implementation =
     (case chat tf conversation message of (reply, conversation') \<Rightarrow>
      case extract_substring lib reply (str ''<IMPLEMENTATION>'') (str ''</IMPLEMENTATION>'') of
        Some block \<Rightarrow> Bound (Some block)
      | None \<Rightarrow> programmer_attempts tf lib i conversation' nudge (Bound None))"

definition programmer_message :: "('m, 'ts) library \<Rightarrow> 'ts \<Rightarrow> unicode \<Rightarrow> unicode" where
  "programmer_message lib task_schema protocol_document =
     str ''JSON schema:'' @ [0xA, 0xA] @ json_dumps_schema lib task_schema
       @ [0xA, 0xA] @ str ''Protocol document:'' @ [0xA, 0xA]
       @ protocol_document"

definition SenderProgrammer_call ::
  "'c toolformer \<Rightarrow> ('m, 'ts) library \<Rightarrow> unicode \<Rightarrow> int \<Rightarrow> 'ts \<Rightarrow> unicode
     \<Rightarrow> py_error + unicode" where
  "SenderProgrammer_call tf lib TASK_PROGRAMMER_PROMPT num_attempts task_schema protocol_document =
     (let conversation = new_conversation tf TASK_PROGRAMMER_PROMPT (str ''programming'');
          message = programmer_message lib task_schema protocol_document
      in case programmer_attempts tf lib (nat num_attempts) conversation message Unbound of
           Unbound \<Rightarrow> Inl (UnboundLocalError ''implementation'')
         | Bound None \<Rightarrow> Inl (AttributeError ''strip'')
         | Bound (Some implementation) \<Rightarrow>
             (let implementation = py_strip implementation;
                  implementation =
                    py_strip (py_replace fence []
                      (py_replace (fence @ str ''python'') [] implementation));
                  implementation =
                    py_replace (str ''def send_query('') (str ''def run('') implementation
              in Inr implementation))"

text \<open>
  The replies of the conversation of the programmer, in the words of the specification:
  the first attempt sends the first message, every later attempt the corrective nudge.
  \<open>attempt_reply tf c m i\<close> is the reply to attempt \<open>i\<close>, counted from 0.
\<close>

fun attempt_reply :: "'c toolformer \<Rightarrow> 'c \<Rightarrow> unicode \<Rightarrow> nat \<Rightarrow> unicode" where
  "attempt_reply tf c m 0 = fst (chat tf c m)"
| "attempt_reply tf c m (Suc i) = attempt_reply tf (snd (chat tf c m)) nudge i"

text \<open>
  What the last lines of \<open>__call__\<close> make of the extracted block, as a function of the
  block; and the number of backticks (0x60) a text starts with.
\<close>

definition cleaned :: "unicode \<Rightarrow> unicode" where
  "cleaned block =
     py_replace (str ''def send_query('') (str ''def run('')
       (py_strip (py_replace fence []
          (py_replace (fence @ str ''python'') [] (py_strip block))))"

definition lead :: "unicode \<Rightarrow> nat" where
  "lead s = length (takeWhile (\<lambda>c. c = 0x60) s)"

section \<open>Agreement of the renderings, in the words of the specification\<close>

text \<open>
  A dict rendering agrees with a parameter on its name, description and required-ness
  when it stores the three under their keys. A text rendering agrees when it starts with
  the name, contains the description, and tells a required parameter from one that is
  not: the two texts differ.
\<close>

fun with_required :: "'j parameter \<Rightarrow> bool \<Rightarrow> 'j parameter" where
  "with_required (StringParameter n d r) b = StringParameter n d b"
| "with_required (EnumParameter n d vs r) b = EnumParameter n d vs b"
| "with_required (NumberParameter n d r) b = NumberParameter n d b"
| "with_required (ArrayParameter n d r i) b = ArrayParameter n d b i"

definition dict_agrees :: "'j parameter \<Rightarrow> 'j schema_dict \<Rightarrow> bool" where
  "dict_agrees p d =
     (k_name d = Some (name p) \<and> k_description d = Some (description p)
      \<and> k_required d = Some (required p))"

definition text_agrees :: "('j parameter \<Rightarrow> string) \<Rightarrow> 'j parameter \<Rightarrow> bool" where
  "text_agrees render p =
     (prefix (name p) (render p) \<and> py_in (description p) (render p)
      \<and> render (with_required p True) \<noteq> render (with_required p False))"

definition renderings_agree :: "(nat option \<Rightarrow> 'j \<Rightarrow> string) \<Rightarrow> 'j parameter \<Rightarrow> bool" where
  "renderings_agree json_dumps p =
     (dict_agrees p (as_openai_info p) \<and> dict_agrees p (as_standard_api p)
      \<and> text_agrees (as_natural_language json_dumps) p
      \<and> text_agrees (as_documented_python json_dumps) p)"

section \<open>Tables: no row of the lowercase table touches white space\<close>

text \<open>A range of code points that lies in a gap between the white-space characters.\<close>

definition ws_free :: "nat \<Rightarrow> nat \<Rightarrow> bool" where
  "ws_free lo hi =
     (hi < 0x9 \<or> (0xD < lo \<and> hi < 0x1C) \<or> (0x20 < lo \<and> hi < 0x85) \<or> (0x85 < lo \<and> hi < 0xA0)
      \<or> (0xA0 < lo \<and> hi < 0x1680) \<or> (0x1680 < lo \<and> hi < 0x2000)
      \<or> (0x200A < lo \<and> hi < 0x2028) \<or> (0x2029 < lo \<and> hi < 0x202F)
      \<or> (0x202F < lo \<and> hi < 0x205F) \<or> (0x205F < lo \<and> hi < 0x3000) \<or> 0x3000 < lo)"

fun row_ok :: "nat \<times> nat \<times> nat \<times> nat \<Rightarrow> bool" where
  "row_ok (lo, hi, step, target) = (ws_free lo hi \<and> ws_free target (target + (hi - lo)))"

text \<open>
  The relation between a character and what \<open>lower\<close> makes of it, when that is one
  character: white space stays white space, and the result is one of \<open>y\<close>, \<open>e\<close>, \<open>s\<close>
  exactly when the character is that letter, in either case.
\<close>

definition lowered :: "nat \<Rightarrow> nat \<Rightarrow> bool" where
  "lowered a b =
     (py_isspace b = py_isspace a
      \<and> (b = 0x79) = (py_lower [a] = [0x79])
      \<and> (b = 0x65) = (py_lower [a] = [0x65])
      \<and> (b = 0x73) = (py_lower [a] = [0x73]))"

section \<open>Concrete tools, backends and counterparties\<close>

text \<open>
  A tool that divides 10 by its argument: at 0 it raises, at 5 it returns 2. Two
  consoles over a standard output that keeps the lines written: \<open>plain\<close> formats every
  value, \<open>brittle\<close> cannot format a reply that is no text.
\<close>

definition divider :: "(string, nat, nat) tool" where
  "divider = \<lparr>t_name = ''divide'', t_description = ''Divides ten by n'',
     t_parameters = [NumberParameter ''n'' ''the divisor'' True],
     t_function = (\<lambda>n. if n = 0 then Raises (Exception (Inr (str ''division by zero'')))
                        else Returns (Other (10 div n))),
     t_output_schema = None\<rparr>"

definition plain :: "(nat, nat, unicode list) console" where
  "plain = \<lparr>format_args = (\<lambda>a. Inr (str ''(n,)'', str ''{}'')),
     format_reply = (\<lambda>r. Inr (str ''a number'')),
     write_line = (\<lambda>line out. (None, out @ [line]))\<rparr>"

definition brittle :: "(nat, nat, unicode list) console" where
  "brittle = \<lparr>format_args = (\<lambda>a. Inr (str ''(n,)'', str ''{}'')),
     format_reply = (\<lambda>r. Inl (Exception (Inr (str ''cannot format the reply'')))),
     write_line = (\<lambda>line out. (None, out @ [line]))\<rparr>"

text \<open>The helpers, with the block extraction modelled above; a task schema is its text.\<close>

definition blocks :: "(unit, unicode) library" where
  "blocks = \<lparr>extract_substring = delimited_block, extract_metadata = (\<lambda>protocol. ()),
     task_schema_str = (\<lambda>t. t), json_dumps_schema = (\<lambda>t. t)\<rparr>"

text \<open>
  Backends. The state of a conversation is the number of messages it has answered.
  \<open>replying r\<close> answers every message with \<open>r\<close>; \<open>silent\<close> never writes a tag;
  \<open>settling\<close> asks a question first and
  then writes the final protocol; \<open>slow_coder\<close> needs the nudge before it answers with an
  implementation in a fenced code block.
\<close>

definition replying :: "unicode \<Rightarrow> nat toolformer" where
  "replying r = \<lparr>new_conversation = (\<lambda>prompt category. 0), chat = (\<lambda>c m. (r, Suc c))\<rparr>"

definition silent :: "nat toolformer" where
  "silent = \<lparr>new_conversation = (\<lambda>prompt category. 0),
     chat = (\<lambda>c m. (str ''I cannot write this adapter.'', Suc c))\<rparr>"

definition settling :: "nat toolformer" where
  "settling = \<lparr>new_conversation = (\<lambda>prompt category. 0),
     chat = (\<lambda>c m. (if c = 0 then str ''Which format do you accept?''
                      else str ''<FINALPROTOCOL>one JSON object per line</FINALPROTOCOL>'',
                      Suc c))\<rparr>"

definition slow_coder :: "nat toolformer" where
  "slow_coder = \<lparr>new_conversation = (\<lambda>prompt category. 0),
     chat = (\<lambda>c m. (if c = 0 then str ''Let me think about it.''
                      else str ''Here it is. <IMPLEMENTATION>'' @ fence @ str ''python'' @ [0xA]
                        @ str ''def send_query(task_data):'' @ [0xA]
                        @ str ''  return {}'' @ [0xA] @ fence @ str ''</IMPLEMENTATION>'',
                      Suc c))\<rparr>"

text \<open>
  Counterparties, without state: one agrees, one cannot be reached, one answers with a
  status and no reason, one with an empty dict.
\<close>

definition agreeing :: "unit \<Rightarrow> unicode \<Rightarrow> response \<times> unit" where
  "agreeing k m = (\<lparr>r_status = Some (str ''success''),
     r_body = Some (str ''JSON, one object per line.''), r_message = None\<rparr>, k)"

definition unreachable :: "unit \<Rightarrow> unicode \<Rightarrow> response \<times> unit" where
  "unreachable k m = (\<lparr>r_status = Some (str ''error''), r_body = None,
     r_message = Some (str ''connection refused'')\<rparr>, k)"

definition curt :: "unit \<Rightarrow> unicode \<Rightarrow> response \<times> unit" where
  "curt k m = (\<lparr>r_status = Some (str ''error''), r_body = None, r_message = None\<rparr>, k)"

definition mute :: "unit \<Rightarrow> unicode \<Rightarrow> response \<times> unit" where
  "mute k m = (\<lparr>r_status = None, r_body = None, r_message = None\<rparr>, k)"

section \<open>Facts about texts\<close>

lemma py_in_sublist: "py_in pat s = sublist pat s"
  by (induction s) (auto simp: sublist_Cons_right)

text \<open>A capital sigma at the end of a word becomes the final sigma.\<close>

lemma lower_final_sigma:
  "py_lower [0x39F, 0x394, 0x39F, 0x3A3, 0x20, 0x3A3, 0x391] = [0x3BF, 0x3B4, 0x3BF, 0x3C2, 0x20, 0x3C3, 0x3B1]"
  by code_simp

lemma str_append: "str (a @ b) = str a @ str b"
  by (simp add: str_def)

lemma lookup_range_row:
  "lookup_range rows c = Some d \<Longrightarrow>
   \<exists>lo hi step target. (lo, hi, step, target) \<in> set rows \<and> lo \<le> c \<and> c \<le> hi
      \<and> d = target + (c - lo)"
proof (induction rows)
  case Nil
  then show ?case by simp
next
  case (Cons row rows)
  obtain lo hi step target where row: "row = (lo, hi, step, target)" by (cases row)
  show ?case
  proof (cases "lo \<le> c \<and> c \<le> hi \<and> (c - lo) mod step = 0")
    case True
    with Cons.prems row have "d = target + (c - lo)" by simp
    with True row show ?thesis
      by (intro exI[of _ lo] exI[of _ hi] exI[of _ step] exI[of _ target]) simp
  next
    case False
    with Cons.prems row have "lookup_range rows c = Some d" by auto
    from Cons.IH[OF this] show ?thesis by auto
  qed
qed

lemma ws_free_sound: "ws_free lo hi \<Longrightarrow> lo \<le> c \<Longrightarrow> c \<le> hi \<Longrightarrow> \<not> py_isspace c"
  unfolding ws_free_def py_isspace_def by auto

lemma rows_ok: "list_all row_ok lower_ranges"
  by (simp add: lower_ranges_def ws_free_def)

lemma lookup_no_space:
  assumes "lookup_range lower_ranges c = Some d"
  shows "\<not> py_isspace c \<and> \<not> py_isspace d"
proof -
  from lookup_range_row[OF assms] obtain lo hi step target where
    row: "(lo, hi, step, target) \<in> set lower_ranges" and c: "lo \<le> c" "c \<le> hi"
    and d: "d = target + (c - lo)" by blast
  from row rows_ok have "row_ok (lo, hi, step, target)" unfolding list_all_iff by blast
  then have 1: "ws_free lo hi" and 2: "ws_free target (target + (hi - lo))" by simp_all
  have "\<not> py_isspace c" using 1 c by (rule ws_free_sound)
  moreover have "\<not> py_isspace d"
    using 2 by (rule ws_free_sound) (use c d in simp_all)
  ultimately show ?thesis by simp
qed

text \<open>But for U+0130 the lowercase of a character is one character, white space as it is.\<close>

lemma to_lower_full_one:
  assumes "c \<noteq> 0x130"
  shows "\<exists>d. to_lower_full c = [d] \<and> py_isspace d = py_isspace c"
proof (cases "c < 0x80")
  case True
  have "py_isspace (c + 0x20) = py_isspace c" if "0x41 \<le> c" "c \<le> 0x5A"
    using that by (auto simp: py_isspace_def)
  with True show ?thesis by (simp add: to_lower_full_def)
next
  case False
  show ?thesis
  proof (cases "lookup_range lower_ranges c")
    case None
    with False assms show ?thesis by (simp add: to_lower_full_def)
  next
    case (Some d)
    with lookup_no_space[OF Some] False assms show ?thesis by (simp add: to_lower_full_def)
  qed
qed

lemma lower_single:
  "py_lower [a] = (if a = 0x3A3 then [0x3C3] else to_lower_full a)"
  by (simp add: py_lower_def final_sigma_def)

lemma lowered_step:
  assumes "a \<noteq> 0x130"
  shows "\<exists>b. lower_from before (a # after) = b # lower_from (a # before) after \<and> lowered a b"
proof (cases "a = 0x3A3")
  case True
  have "lowered 0x3A3 0x3C2" "lowered 0x3A3 0x3C3"
    by (simp_all add: lowered_def lower_single py_isspace_def)
  with True show ?thesis by simp
next
  case False
  from to_lower_full_one[OF assms] obtain d where
    d: "to_lower_full a = [d]" "py_isspace d = py_isspace a" by blast
  then have "lowered a d" using False by (simp add: lowered_def lower_single)
  with d False show ?thesis by simp
qed

lemma lower_from_lowered:
  "0x130 \<notin> set s \<Longrightarrow> list_all2 lowered s (lower_from before s)"
proof (induction s arbitrary: before)
  case Nil
  then show ?case by simp
next
  case (Cons a s)
  then have "a \<noteq> 0x130" by auto
  from lowered_step[OF this, of before s] obtain b where
    "lower_from before (a # s) = b # lower_from (a # before) s" "lowered a b" by blast
  with Cons show ?case by simp
qed

lemma lowered_dropWhile:
  "list_all2 lowered s z \<Longrightarrow>
   list_all2 lowered (dropWhile py_isspace s) (dropWhile py_isspace z)"
  by (induction rule: list_all2_induct) (auto simp: lowered_def)

lemma lowered_strip:
  assumes "list_all2 lowered s z"
  shows "list_all2 lowered (py_strip s) (py_strip z)"
proof -
  have "list_all2 lowered (rev (dropWhile py_isspace s)) (rev (dropWhile py_isspace z))"
    using lowered_dropWhile[OF assms] by simp
  then have "list_all2 lowered (dropWhile py_isspace (rev (dropWhile py_isspace s)))
      (dropWhile py_isspace (rev (dropWhile py_isspace z)))"
    by (rule lowered_dropWhile)
  then show ?thesis by (simp add: py_strip_def)
qed

lemma lowered_last:
  assumes "list_all2 lowered s z"
  shows "list_all2 lowered (py_last n s) (py_last n z)"
  using assms list_all2_lengthD[OF assms] by (simp add: py_last_def list_all2_dropI)

lemma yes_letters:
  "py_lower [0x79] = [0x79]" "py_lower [0x65] = [0x65]" "py_lower [0x73] = [0x73]"
  by (simp_all add: lower_single to_lower_full_def)

lemma lowered_yes_prefix:
  assumes "list_all2 lowered s z"
  shows "prefix [0x79, 0x65, 0x73] z = list_all2 same_letter [0x79, 0x65, 0x73] (take 3 s)"
proof -
  have l: "lowered a b \<Longrightarrow> (b = 0x79) = same_letter 0x79 a \<and> (b = 0x65) = same_letter 0x65 a
      \<and> (b = 0x73) = same_letter 0x73 a" for a b
    by (auto simp: lowered_def same_letter_def yes_letters)
  show ?thesis
  proof (cases s)
    case Nil
    with assms show ?thesis by simp
  next
    case s1: (Cons a1 t1)
    then obtain b1 u1 where z1: "z = b1 # u1" and r1: "lowered a1 b1" "list_all2 lowered t1 u1"
      using assms by (auto simp: list_all2_Cons1)
    show ?thesis
    proof (cases t1)
      case Nil
      with s1 z1 r1 show ?thesis by simp
    next
      case s2: (Cons a2 t2)
      then obtain b2 u2 where z2: "u1 = b2 # u2" and r2: "lowered a2 b2" "list_all2 lowered t2 u2"
        using r1 by (auto simp: list_all2_Cons1)
      show ?thesis
      proof (cases t2)
        case Nil
        with s1 s2 z1 z2 r2 show ?thesis by simp
      next
        case s3: (Cons a3 t3)
        then obtain b3 u3 where z3: "u2 = b3 # u3" and r3: "lowered a3 b3"
          using r2 by (auto simp: list_all2_Cons1)
        show ?thesis
          using l[OF r1(1)] l[OF r2(1)] l[OF r3] by (simp add: s1 s2 s3 z1 z2 z3)
      qed
    qed
  qed
qed

lemma lowered_yes:
  "list_all2 lowered s z \<Longrightarrow>
   py_in [0x79, 0x65, 0x73] z = occurs_ignoring_case [0x79, 0x65, 0x73] s"
proof (induction rule: list_all2_induct)
  case Nil
  then show ?case by simp
next
  case (Cons a s b z)
  let ?p = "[0x79, 0x65, 0x73] :: unicode"
  have "list_all2 lowered (a # s) (b # z)" using Cons by simp
  then have p: "prefix ?p (b # z) = list_all2 same_letter ?p (take 3 (a # s))"
    by (rule lowered_yes_prefix)
  have "py_in ?p (b # z) = (prefix ?p (b # z) \<or> py_in ?p z)" by simp
  also have "\<dots> = (list_all2 same_letter ?p (take 3 (a # s)) \<or> occurs_ignoring_case ?p s)"
    unfolding p Cons.IH ..
  also have "\<dots> = occurs_ignoring_case ?p (a # s)" by (simp add: numeral_3_eq_3)
  finally show ?case .
qed

text \<open>
  For a reply without U+0130 the code's expression is the rule of the specification.
\<close>

lemma parsed_decision_spec:
  assumes "0x130 \<notin> set reply"
  shows "parsed_decision reply = yes_in_tail reply"
proof -
  have "list_all2 lowered reply (py_lower reply)"
    unfolding py_lower_def using assms by (rule lower_from_lowered)
  then have "list_all2 lowered (py_last 10 (py_strip reply)) (py_last 10 (py_strip (py_lower reply)))"
    by (intro lowered_last lowered_strip)
  from lowered_yes[OF this] show ?thesis
    by (simp add: parsed_decision_def yes_in_tail_def str_def)
qed

text \<open>Stripping leaves an ending alone that neither starts nor ends with white space.\<close>

lemma strip_append_keeps:
  assumes "b \<noteq> []" "\<not> py_isspace (hd b)" "\<not> py_isspace (last b)"
  shows "\<exists>a'. py_strip (a @ b) = a' @ b"
proof -
  have "\<exists>a'. dropWhile py_isspace (a @ b) = a' @ b"
  proof (cases "\<forall>x\<in>set a. py_isspace x")
    case True
    then have "dropWhile py_isspace (a @ b) = dropWhile py_isspace b"
      by (simp add: dropWhile_append)
    also have "\<dots> = b" using assms by (cases b) auto
    finally show ?thesis by (intro exI[of _ "[]"]) simp
  next
    case False
    then have "dropWhile py_isspace (a @ b) = dropWhile py_isspace a @ b"
      by (auto simp add: dropWhile_append)
    then show ?thesis by blast
  qed
  then obtain a' where a': "dropWhile py_isspace (a @ b) = a' @ b" by blast
  have "dropWhile py_isspace (rev b @ rev a') = rev b @ rev a'"
    using assms by (cases "rev b") (auto simp: hd_rev)
  then show ?thesis
    by (simp add: py_strip_def a')
qed

lemma last_of_append: "n \<le> length b \<Longrightarrow> py_last n (a @ b) = py_last n b"
  by (simp add: py_last_def)

text \<open>
  Lowering a text that ends in \<open>e\<close>: without a capital sigma in it, the ending is lowered
  character by character, whatever stands before it.
\<close>

lemma lower_from_append:
  "\<exists>x'. lower_from before (x @ e) = x' @ lower_from (rev x @ before) e"
proof (induction x arbitrary: before)
  case Nil
  show ?case by simp
next
  case (Cons c x)
  from Cons[of "c # before"] obtain x' where
    "lower_from (c # before) (x @ e) = x' @ lower_from (rev x @ c # before) e" by blast
  then show ?case by simp
qed

lemma lower_from_plain:
  "0x3A3 \<notin> set e \<Longrightarrow> lower_from before e = concat (map to_lower_full e)"
  by (induction e arbitrary: before) auto

lemma decision_of_ending:
  assumes "0x3A3 \<notin> set e" and "concat (map to_lower_full e) = e'"
    and "e' \<noteq> []" "\<not> py_isspace (hd e')" "\<not> py_isspace (last e')" "10 \<le> length e'"
  shows "parsed_decision (body @ e) = py_in (str ''yes'') (py_last 10 e')"
proof -
  from lower_from_append[of "[]" body e] obtain x' where
    "py_lower (body @ e) = x' @ lower_from (rev body @ []) e" by (auto simp: py_lower_def)
  then have "py_lower (body @ e) = x' @ e'"
    using lower_from_plain[OF assms(1)] assms(2) by simp
  moreover obtain a' where "py_strip (x' @ e') = a' @ e'"
    using strip_append_keeps[OF assms(3-5)] by blast
  ultimately show ?thesis
    using assms(6) by (simp add: parsed_decision_def last_of_append)
qed

section \<open>The feasibility checker: the decision rule\<close>

text \<open>
  C1, as stated: for every reply the checker returns true exactly when \<open>yes\<close>, compared
  without regard to case, occurs in the last 10 characters of the trimmed reply. The reply
  \<open>YES\<close> followed by seven U+0130 has ten characters and holds \<open>YES\<close>; lowered it has
  seventeen, the last ten of them without a \<open>yes\<close>, and the checker returns false.
\<close>

theorem checker_decision_counterexample:
  "\<not> parsed_decision (str ''YES'' @ [0x130, 0x130, 0x130, 0x130, 0x130, 0x130, 0x130])
   \<and> yes_in_tail (str ''YES'' @ [0x130, 0x130, 0x130, 0x130, 0x130, 0x130, 0x130])"
  by (simp add: parsed_decision_def yes_in_tail_def str_def py_lower_def to_lower_full_def
        py_strip_def py_isspace_def py_last_def same_letter_def)

text \<open>
  C1, amended. Whatever the backend replies, the checker returns what the expression of
  the source makes of the reply; for every reply without the character U+0130 that is
  true exactly when \<open>yes\<close>, compared without regard to case, occurs in the last 10
  characters of the trimmed reply. A reply that ends in \<open>decision: YES\<close> gives true, a
  reply that ends in \<open>decision: NO\<close> gives false, and so does a reply whose \<open>yes\<close> stands
  before its last 10 characters.
\<close>

theorem checker_decision_rule:
  "ReceiverProtocolChecker_call tf json_dumps PROMPT doc tools
     = parsed_decision (fst (chat tf (new_conversation tf PROMPT (str ''protocolChecking''))
                                (checker_message json_dumps doc tools)))
   \<and> (0x130 \<notin> set reply \<longrightarrow> parsed_decision reply = yes_in_tail reply)
   \<and> parsed_decision (body @ str ''decision: YES'')
   \<and> \<not> parsed_decision (body @ str ''decision: NO'')
   \<and> \<not> parsed_decision (body @ str ''Yes, every tool is there. Verdict: negative'')"
proof -
  have 1: "ReceiverProtocolChecker_call tf json_dumps PROMPT doc tools
     = parsed_decision (fst (chat tf (new_conversation tf PROMPT (str ''protocolChecking''))
                                (checker_message json_dumps doc tools)))"
    by (simp add: ReceiverProtocolChecker_call_def)
  have "parsed_decision (body @ str ''decision: YES'')
      = py_in (str ''yes'') (py_last 10 (str ''decision: yes''))"
    by (rule decision_of_ending) (simp_all add: str_def to_lower_full_def py_isspace_def)
  then have 2: "parsed_decision (body @ str ''decision: YES'')"
    by (simp add: str_def py_last_def)
  have "parsed_decision (body @ str ''decision: NO'')
      = py_in (str ''yes'') (py_last 10 (str ''decision: no''))"
    by (rule decision_of_ending) (simp_all add: str_def to_lower_full_def py_isspace_def)
  then have 3: "\<not> parsed_decision (body @ str ''decision: NO'')"
    by (simp add: str_def py_last_def)
  have "parsed_decision (body @ str ''Yes, every tool is there. Verdict: negative'')
      = py_in (str ''yes'') (py_last 10 (str ''yes, every tool is there. verdict: negative''))"
    by (rule decision_of_ending) (simp_all add: str_def to_lower_full_def py_isspace_def)
  then have 4: "\<not> parsed_decision (body @ str ''Yes, every tool is there. Verdict: negative'')"
    by (simp add: str_def py_last_def)
  show ?thesis using 1 2 3 4 parsed_decision_spec by simp
qed

theorem checker_decision_rule_witness:
  "0x130 \<notin> set (str ''The tools suffice. Decision: Yes.'')
   \<and> parsed_decision (str ''The tools suffice. Decision: Yes.'')
       = yes_in_tail (str ''The tools suffice. Decision: Yes.'')
   \<and> yes_in_tail (str ''The tools suffice. Decision: Yes.'')"
proof -
  have h: "0x130 \<notin> set (str ''The tools suffice. Decision: Yes.'')"
    by (simp add: str_def)
  have y: "yes_in_tail (str ''The tools suffice. Decision: Yes.'')"
    by (simp add: yes_in_tail_def str_def py_lower_def to_lower_full_def
        py_strip_def py_isspace_def py_last_def same_letter_def)
  from checker_decision_rule [of _ _ _ _ _ "str ''The tools suffice. Decision: Yes.''"] h y
  show ?thesis by blast
qed

section \<open>Parameters: reconstruction and renderings\<close>

lemma roundtrip_String:
  "from_standard_api StringParameter_class (as_standard_api (StringParameter n d r))
     = Inr (StringParameter n d r)"
  by (simp add: getitem_def empty_dict_def)

lemma roundtrip_Enum:
  "from_standard_api EnumParameter_class (as_standard_api (EnumParameter n d vs r))
     = Inr (EnumParameter n d vs r)"
  by (simp add: getitem_def empty_dict_def)

lemma from_standard_api_type:
  "from_standard_api cls api = Inr q \<Longrightarrow>
   k_type (as_standard_api q) = Some ''string'' \<or> k_type (as_standard_api q) = Some ''enum''"
  by (cases cls) (auto simp: getitem_def empty_dict_def split: sum.splits option.splits)

lemma no_other_roundtrip:
  "from_standard_api cls api = Inr q \<Longrightarrow> k_type api \<noteq> Some ''string'' \<Longrightarrow>
   k_type api \<noteq> Some ''enum'' \<Longrightarrow> as_standard_api q \<noteq> api"
  using from_standard_api_type [of cls api q] by auto

text \<open>
  C2. The round trip through the standard schema is claimed for all four variants. For a
  number and for an array parameter the class has no \<open>from_standard_api\<close>: the call on
  the parameter's own class raises \<open>AttributeError\<close>, and the \<open>from_standard_api\<close> of no
  class gives a parameter that renders to the schema it was given.
\<close>

theorem number_array_no_roundtrip:
  "from_standard_api (class_of (NumberParameter n d r)) (as_standard_api (NumberParameter n d r))
     = Inl (AttributeError ''from_standard_api'')
   \<and> from_standard_api (class_of (ArrayParameter n d r i))
        (as_standard_api (ArrayParameter n d r i))
     = Inl (AttributeError ''from_standard_api'')
   \<and> \<not> (\<exists>cls q. from_standard_api cls (as_standard_api (NumberParameter n d r)) = Inr q
          \<and> as_standard_api q = as_standard_api (NumberParameter n d r))
   \<and> \<not> (\<exists>cls q. from_standard_api cls (as_standard_api (ArrayParameter n d r i)) = Inr q
          \<and> as_standard_api q = as_standard_api (ArrayParameter n d r i))"
proof -
  have "k_type (as_standard_api (NumberParameter n d r)) = Some ''number''"
    and "k_type (as_standard_api (ArrayParameter n d r i)) = Some ''array''"
    by (simp_all add: empty_dict_def)
  then show ?thesis
    by (auto dest!: no_other_roundtrip)
qed

lemma text_shape:
  "\<exists>a b. as_natural_language jd p = name p @ a @ description p @ b"
  "\<exists>a b. as_documented_python jd p = name p @ a @ description p @ b"
proof -
  show "\<exists>a b. as_natural_language jd p = name p @ a @ description p @ b"
  proof (cases p)
    case (StringParameter n d r)
    then show ?thesis
      by (intro exI[of _ "'' (string'' @ (if r then '', required'' else []) @ ''): ''"]
            exI[of _ "''.''"]) simp
  next
    case (EnumParameter n d vs r)
    then show ?thesis
      by (intro exI[of _ "'' (enum'' @ (if r then '', required'' else []) @ ''): ''"]
            exI[of _ "''. Possible values: '' @ py_join '', '' vs"]) simp
  next
    case (NumberParameter n d r)
    then show ?thesis
      by (intro exI[of _ "'' (number): ''"] exI[of _ "[]"]) simp
  next
    case (ArrayParameter n d r i)
    then show ?thesis
      by (intro exI[of _ "'' (array): ''"]
            exI[of _ "''. Each item should follow the JSON schema: '' @ jd None i"]) simp
  qed
  show "\<exists>a b. as_documented_python jd p = name p @ a @ description p @ b"
  proof (cases p)
    case (StringParameter n d r)
    then show ?thesis
      by (intro exI[of _ "'' (str'' @ (if r then '', required'' else []) @ ''): ''"]
            exI[of _ "''.''"]) simp
  next
    case (EnumParameter n d vs r)
    then show ?thesis
      by (intro exI[of _ "'' (str'' @ (if r then '', required'' else []) @ ''): ''"]
            exI[of _ "''. Possible values: '' @ py_join '', '' vs"]) simp
  next
    case (NumberParameter n d r)
    then show ?thesis
      by (intro exI[of _ "'' (number): ''"] exI[of _ "[]"]) simp
  next
    case (ArrayParameter n d r i)
    then show ?thesis
      by (intro exI[of _ "'' (list): ''"]
            exI[of _ "''. Each item should follow the JSON schema: '' @ jd None i"]) simp
  qed
qed

lemma shape_gives:
  assumes "\<exists>a b. t = n @ a @ d @ b"
  shows "prefix n t \<and> py_in d t"
proof -
  from assms obtain a b where t: "t = n @ a @ d @ b" by blast
  then have "t = (n @ a) @ d @ b" by simp
  then have "sublist d t" unfolding sublist_def by blast
  with t show ?thesis by (simp add: py_in_sublist)
qed

text \<open>
  C3, as stated: the four renderings of a parameter agree on its name, its description
  and its required-ness. It fails for the required number parameter \<open>x\<close>: its OpenAI
  rendering stores neither a name nor required-ness, and its natural-language text is the
  text of the same parameter when it is not required.
\<close>

theorem renderings_agree_counterexample:
  "\<not> renderings_agree (\<lambda>indent j. j) (NumberParameter ''x'' ''a number'' True)
   \<and> k_name (as_openai_info (NumberParameter ''x'' ''a number'' True :: string parameter)) = None
   \<and> k_required (as_openai_info (NumberParameter ''x'' ''a number'' True :: string parameter))
       = None
   \<and> as_natural_language (\<lambda>indent j. j) (NumberParameter ''x'' ''a number'' True)
      = as_natural_language (\<lambda>indent j. j) (NumberParameter ''x'' ''a number'' False)"
  by (simp add: renderings_agree_def dict_agrees_def text_agrees_def empty_dict_def)

text \<open>
  C3, amended. For every parameter of any variant: the standard schema stores the name,
  the description and required-ness; the OpenAI rendering stores the description and never
  required-ness; the natural-language and the documented text start with the name and
  contain the description; and for the string and the enum variant both texts put
  \<open>, required\<close> behind the type word when the parameter is required and nothing when it
  is not, so that the two texts differ.
\<close>

theorem renderings_agree_amended:
  "dict_agrees p (as_standard_api p)
   \<and> k_description (as_openai_info p) = Some (description p)
   \<and> k_required (as_openai_info p) = None
   \<and> prefix (name p) (as_natural_language jd p)
   \<and> py_in (description p) (as_natural_language jd p)
   \<and> prefix (name p) (as_documented_python jd p)
   \<and> py_in (description p) (as_documented_python jd p)
   \<and> prefix (n @ '' (string, required): '') (as_natural_language jd (StringParameter n d True))
   \<and> prefix (n @ '' (string): '') (as_natural_language jd (StringParameter n d False))
   \<and> prefix (n @ '' (enum, required): '') (as_natural_language jd (EnumParameter n d vs True))
   \<and> prefix (n @ '' (enum): '') (as_natural_language jd (EnumParameter n d vs False))
   \<and> prefix (n @ '' (str, required): '') (as_documented_python jd (StringParameter n d True))
   \<and> prefix (n @ '' (str): '') (as_documented_python jd (StringParameter n d False))
   \<and> prefix (n @ '' (str, required): '') (as_documented_python jd (EnumParameter n d vs True))
   \<and> prefix (n @ '' (str): '') (as_documented_python jd (EnumParameter n d vs False))
   \<and> as_natural_language jd (StringParameter n d True)
       \<noteq> as_natural_language jd (StringParameter n d False)
   \<and> as_natural_language jd (EnumParameter n d vs True)
       \<noteq> as_natural_language jd (EnumParameter n d vs False)
   \<and> as_documented_python jd (StringParameter n d True)
       \<noteq> as_documented_python jd (StringParameter n d False)
   \<and> as_documented_python jd (EnumParameter n d vs True)
       \<noteq> as_documented_python jd (EnumParameter n d vs False)"
proof -
  have 1: "dict_agrees p (as_standard_api p)"
    by (cases p) (simp_all add: dict_agrees_def empty_dict_def)
  have 2: "k_description (as_openai_info p) = Some (description p)"
    by (cases p) (simp_all add: empty_dict_def)
  have 3: "k_required (as_openai_info p) = None"
    by (cases p) (simp_all add: empty_dict_def)
  note 4 = shape_gives [OF text_shape(1) [of jd p]]
  note 5 = shape_gives [OF text_shape(2) [of jd p]]
  show ?thesis using 1 2 3 4 5 by simp
qed

text \<open>
  C7, as stated: a type outside string, enum, number and array fails, and every
  recognized type succeeds with its variant. The schema of type \<open>enum\<close> (the shape of the
  standard schema, its values under \<open>values\<close>) is refused as an unknown type, and a schema
  of type \<open>integer\<close> that has the key \<open>enum\<close> gives an enum parameter.
\<close>

theorem from_openai_api_counterexample:
  "parameter_from_openai_api ''p''
      (empty_dict\<lparr>k_type := Some ''enum'', k_description := Some ''d'',
         k_values := Some [''a'']\<rparr> :: string schema_dict) True
     = Inl (ValueError ''Unknown parameter type: enum'')
   \<and> parameter_from_openai_api ''p''
      (empty_dict\<lparr>k_type := Some ''integer'', k_description := Some ''d'',
         k_enum := Some [''1'', ''2'']\<rparr> :: string schema_dict) True
     = Inr (EnumParameter ''p'' ''d'' [''1'', ''2''] True)"
  by (simp add: parameter_from_openai_api_def getitem_def empty_dict_def)

text \<open>
  C7, amended. A schema without the key \<open>enum\<close> whose type is none of string, number and
  array fails with the \<open>ValueError\<close> that names the type. A schema with the key \<open>enum\<close> and
  a description gives an enum parameter, whatever its type. A schema without the key
  \<open>enum\<close>, of type string, number or array, with a description (and, for an array, the
  key \<open>items\<close>) gives the parameter of that variant.
\<close>

theorem from_openai_api_dispatch:
  "(k_enum schema = None \<and> k_type schema = Some t \<and> t \<notin> {''string'', ''number'', ''array''}
      \<longrightarrow> parameter_from_openai_api n schema r
            = Inl (ValueError (''Unknown parameter type: '' @ t)))
   \<and> (k_enum schema = Some vs \<and> k_description schema = Some d
      \<longrightarrow> parameter_from_openai_api n schema r = Inr (EnumParameter n d vs r))
   \<and> (k_enum schema = None \<and> k_type schema = Some ''string'' \<and> k_description schema = Some d
      \<longrightarrow> parameter_from_openai_api n schema r = Inr (StringParameter n d r))
   \<and> (k_enum schema = None \<and> k_type schema = Some ''number'' \<and> k_description schema = Some d
      \<longrightarrow> parameter_from_openai_api n schema r = Inr (NumberParameter n d r))
   \<and> (k_enum schema = None \<and> k_type schema = Some ''array'' \<and> k_description schema = Some d
        \<and> k_items schema = Some i
      \<longrightarrow> parameter_from_openai_api n schema r = Inr (ArrayParameter n d r i))"
  by (simp add: parameter_from_openai_api_def getitem_def)

theorem from_openai_api_dispatch_witness:
  "parameter_from_openai_api ''p''
      (empty_dict\<lparr>k_type := Some ''integer'', k_description := Some ''d''\<rparr>
         :: string schema_dict) True
     = Inl (ValueError ''Unknown parameter type: integer'')
   \<and> parameter_from_openai_api ''p''
      (empty_dict\<lparr>k_type := Some ''string'', k_description := Some ''d'',
         k_enum := Some [''a'', ''b'']\<rparr> :: string schema_dict) False
     = Inr (EnumParameter ''p'' ''d'' [''a'', ''b''] False)
   \<and> parameter_from_openai_api ''p''
      (empty_dict\<lparr>k_type := Some ''string'', k_description := Some ''d''\<rparr>
         :: string schema_dict) True
     = Inr (StringParameter ''p'' ''d'' True)
   \<and> parameter_from_openai_api ''p''
      (empty_dict\<lparr>k_type := Some ''number'', k_description := Some ''d''\<rparr>
         :: string schema_dict) True
     = Inr (NumberParameter ''p'' ''d'' True)
   \<and> parameter_from_openai_api ''p''
      (empty_dict\<lparr>k_type := Some ''array'', k_description := Some ''d'',
         k_items := Some ''{}''\<rparr> :: string schema_dict) True
     = Inr (ArrayParameter ''p'' ''d'' True ''{}'')"
  using
    from_openai_api_dispatch [where n = "''p''" and r = True and t = "''integer''"
      and d = "''d''" and vs = "[]" and i = "''{}''"
      and schema = "empty_dict\<lparr>k_type := Some ''integer'', k_description := Some ''d''\<rparr>"]
    from_openai_api_dispatch [where n = "''p''" and r = False and t = "''string''"
      and d = "''d''" and vs = "[''a'', ''b'']" and i = "''{}''"
      and schema = "empty_dict\<lparr>k_type := Some ''string'', k_description := Some ''d'',
         k_enum := Some [''a'', ''b'']\<rparr>"]
    from_openai_api_dispatch [where n = "''p''" and r = True and t = "''string''"
      and d = "''d''" and vs = "[]" and i = "''{}''"
      and schema = "empty_dict\<lparr>k_type := Some ''string'', k_description := Some ''d''\<rparr>"]
    from_openai_api_dispatch [where n = "''p''" and r = True and t = "''number''"
      and d = "''d''" and vs = "[]" and i = "''{}''"
      and schema = "empty_dict\<lparr>k_type := Some ''number'', k_description := Some ''d''\<rparr>"]
    from_openai_api_dispatch [where n = "''p''" and r = True and t = "''array''"
      and d = "''d''" and vs = "[]" and i = "''{}''"
      and schema = "empty_dict\<lparr>k_type := Some ''array'', k_description := Some ''d'',
         k_items := Some ''{}''\<rparr>"]
  by (simp add: empty_dict_def)

text \<open>
  C10. The OpenAI rendering of an enum parameter has the type \<open>string\<close> and keeps the
  allowed values under the key \<open>values\<close>, not \<open>enum\<close>. Read back by
  \<open>parameter_from_openai_api\<close> it gives a string parameter, in which the values are gone:
  the OpenAI rendering does not round-trip for the enum variant.
\<close>

theorem enum_openai_info_not_roundtrip:
  "k_type (as_openai_info (EnumParameter n d vs r)) = Some ''string''
   \<and> k_values (as_openai_info (EnumParameter n d vs r)) = Some vs
   \<and> k_enum (as_openai_info (EnumParameter n d vs r)) = None
   \<and> parameter_from_openai_api n' (as_openai_info (EnumParameter n d vs r)) r'
       = Inr (StringParameter n' d r')
   \<and> parameter_from_openai_api n' (as_openai_info (EnumParameter n d vs r)) r'
       \<noteq> Inr (EnumParameter n d vs r)"
  by (simp add: parameter_from_openai_api_def getitem_def empty_dict_def)

section \<open>Tools: the call boundary\<close>

text \<open>
  C8, as stated: when the wrapped function succeeds, its return value is passed through
  unchanged. The print of the reply stands inside the \<open>try\<close> block: with the console
  \<open>brittle\<close>, which cannot format the number the tool returns, the successful call at 5
  comes back as the text of a failed call.
\<close>

theorem tool_call_counterexample:
  "t_function divider 5 = Returns (Other 2)
   \<and> fst (call_tool_for_toolformer brittle divider 5 [])
       = Returns (Text (str ''Tool call failed: cannot format the reply''))"
  by (simp add: call_tool_for_toolformer_def raised_in_try_def except_Exception_def
        divider_def brittle_def str_def)

text \<open>
  C8, amended. For every Tool, when the prints of the call succeed (the arguments, the
  reply or the exception are formatted and the lines are written): a wrapped function
  that raises an instance of \<open>Exception\<close> makes the call return the text
  \<open>Tool call failed: \<close> followed by the text of the exception, and raise nothing; a
  wrapped function that returns makes the call return its value unchanged.
\<close>

theorem tool_call_boundary:
  "(format_args io args = Inr (args_text, kwargs_text)
    \<and> write_line io (str ''Toolformer called tool '' @ str (t_name tool) @ str '' with args ''
          @ args_text @ str '' and kwargs '' @ kwargs_text) out = (None, out1)
    \<and> t_function tool args = Raises (Exception (Inr e))
    \<and> write_line io (str ''Tool '' @ str (t_name tool) @ str '' failed with exception: '' @ e)
          out1 = (None, out2)
    \<longrightarrow> call_tool_for_toolformer io tool args out
          = (Returns (Text (str ''Tool call failed: '' @ e)), out2))
   \<and> (format_args io args = Inr (args_text, kwargs_text)
    \<and> write_line io (str ''Toolformer called tool '' @ str (t_name tool) @ str '' with args ''
          @ args_text @ str '' and kwargs '' @ kwargs_text) out = (None, out1)
    \<and> t_function tool args = Returns v
    \<and> format_value io v = Inr reply_text
    \<and> write_line io (str ''Tool '' @ str (t_name tool) @ str '' returned: '' @ reply_text)
          out1 = (None, out3)
    \<longrightarrow> call_tool_for_toolformer io tool args out = (Returns v, out3))"
  by (simp add: call_tool_for_toolformer_def raised_in_try_def except_Exception_def)

theorem tool_call_boundary_witness:
  "t_function divider 0 = Raises (Exception (Inr (str ''division by zero'')))
   \<and> fst (call_tool_for_toolformer plain divider 0 [])
       = Returns (Text (str ''Tool call failed: '' @ str ''division by zero''))
   \<and> t_function divider 5 = Returns (Other 2)
   \<and> fst (call_tool_for_toolformer plain divider 5 []) = Returns (Other 2)"
proof -
  let ?line = "\<lambda>n. str ''Toolformer called tool '' @ str (t_name divider) @ str '' with args ''
          @ str ''(n,)'' @ str '' and kwargs '' @ str ''{}''"
  have a: "format_args plain n = Inr (str ''(n,)'', str ''{}'')" for n
    by (simp add: plain_def)
  have w: "write_line plain line out = (None, out @ [line])" for line out
    by (simp add: plain_def)
  have f0: "t_function divider 0 = Raises (Exception (Inr (str ''division by zero'')))"
    and f5: "t_function divider 5 = Returns (Other 2)"
    by (simp_all add: divider_def)
  have v: "format_value plain (Other 2) = Inr (str ''a number'')"
    by (simp add: plain_def)
  from tool_call_boundary [of plain 0 "str ''(n,)''" "str ''{}''" divider "[]" _ "str ''division by zero''"
      _ "Other 2" "str ''a number''"]
    a w f0
  have 0: "fst (call_tool_for_toolformer plain divider 0 [])
       = Returns (Text (str ''Tool call failed: '' @ str ''division by zero''))"
    by simp
  from tool_call_boundary [of plain 5 "str ''(n,)''" "str ''{}''" divider "[]" _ "str ''division by zero''"
      _ "Other 2" "str ''a number''"]
    a w f5 v
  have 5: "fst (call_tool_for_toolformer plain divider 5 []) = Returns (Other 2)"
    by simp
  from 0 5 f0 f5 show ?thesis by simp
qed

text \<open>What is raised and is no \<open>Exception\<close> passes the boundary.\<close>

lemma tool_call_non_exception:
  "format_args io args = Inr (args_text, kwargs_text) \<Longrightarrow>
   write_line io (str ''Toolformer called tool '' @ str (t_name tool) @ str '' with args ''
          @ args_text @ str '' and kwargs '' @ kwargs_text) out = (None, out1) \<Longrightarrow>
   t_function tool args = Raises (NonException e) \<Longrightarrow>
   call_tool_for_toolformer io tool args out = (Raises (NonException e), out1)"
  by (simp add: call_tool_for_toolformer_def raised_in_try_def)

section \<open>The negotiator: rounds and outcomes\<close>

declare negotiation_rounds.simps(2) [simp del]

lemma readable_cases:
  assumes "readable r"
  obtains body where "r_status r = Some (str ''success'')" "r_body r = Some body"
  | status reason where "r_status r = Some status" "status \<noteq> (str ''success'')"
      "r_message r = Some reason"
  using assms by (auto simp: readable_def split: option.splits if_splits)

text \<open>One round, by what the backend and the other party answer.\<close>

lemma round_extracted:
  assumes "chat tf c om = (message, c')"
    "extract_substring lib message (str ''<FINALPROTOCOL>'') (str ''</FINALPROTOCOL>'') = Some protocol"
  shows "negotiation_rounds tf lib callback (Suc i) c k om rounds
    = Inr (Some \<lparr>p_document = protocol, p_sources = [],
                  p_metadata = extract_metadata lib protocol\<rparr>,
           rounds @ [(om, message)])"
  using assms by (simp add: negotiation_rounds.simps(2))

lemma round_success:
  assumes "chat tf c om = (message, c')"
    "extract_substring lib message (str ''<FINALPROTOCOL>'') (str ''</FINALPROTOCOL>'') = None"
    "callback k message = (response, k')"
    "r_status response = Some (str ''success'')" "r_body response = Some body"
  shows "negotiation_rounds tf lib callback (Suc i) c k om rounds
    = negotiation_rounds tf lib callback i c' k' body (rounds @ [(om, message)])"
  using assms by (simp add: negotiation_rounds.simps(2) getitem_def)

lemma round_failure:
  assumes "chat tf c om = (message, c')"
    "extract_substring lib message (str ''<FINALPROTOCOL>'') (str ''</FINALPROTOCOL>'') = None"
    "callback k message = (response, k')"
    "r_status response = Some status" "status \<noteq> (str ''success'')"
    "r_message response = Some reason"
  shows "negotiation_rounds tf lib callback (Suc i) c k om rounds
    = negotiation_rounds tf lib callback i c' k'
        ((str ''Error interacting with the other party: '') @ reason) (rounds @ [(om, message)])"
  using assms by (simp add: negotiation_rounds.simps(2) getitem_def)

text \<open>
  The loop with \<open>i\<close> rounds left, for a callback whose responses can be read: it returns,
  it makes at most \<open>i\<close> rounds, and it returns no protocol only after \<open>i\<close> rounds without a
  block, a protocol only from the block of the last reply.
\<close>

lemma rounds_invariant:
  assumes wf: "\<And>k m. readable (fst (callback k m))"
  shows "\<exists>found made.
      negotiation_rounds tf lib callback i c k om rounds = Inr (found, rounds @ made)
      \<and> length made \<le> i
      \<and> (case found of
            None \<Rightarrow> length made = i \<and> list_all (no_block lib) made
          | Some p \<Rightarrow> made \<noteq> [] \<and> list_all (no_block lib) (butlast made)
              \<and> extract_substring lib (snd (last made)) (str ''<FINALPROTOCOL>'') (str ''</FINALPROTOCOL>'')
                    = Some (p_document p)
              \<and> p = \<lparr>p_document = p_document p, p_sources = [],
                      p_metadata = extract_metadata lib (p_document p)\<rparr>)"
proof (induction i arbitrary: c k om rounds)
  case 0
  show ?case by simp
next
  case (Suc i)
  obtain message c' where ch: "chat tf c om = (message, c')" by (cases "chat tf c om")
  show ?case
  proof (cases "extract_substring lib message (str ''<FINALPROTOCOL>'') (str ''</FINALPROTOCOL>'')")
    case (Some protocol)
    show ?thesis
      unfolding round_extracted[OF ch Some]
      by (intro exI[of _ "Some \<lparr>p_document = protocol, p_sources = [],
                p_metadata = extract_metadata lib protocol\<rparr>"]
            exI[of _ "[(om, message)]"]) (simp add: Some)
  next
    case None
    obtain response k' where cb: "callback k message = (response, k')"
      by (cases "callback k message")
    have "readable response" using wf[of k message] cb by simp
    then obtain next_message where step:
      "negotiation_rounds tf lib callback (Suc i) c k om rounds
        = negotiation_rounds tf lib callback i c' k' next_message (rounds @ [(om, message)])"
    proof (cases rule: readable_cases)
      case (1 body)
      from round_success[where callback = callback, OF ch None cb 1] that show ?thesis
        by blast
    next
      case (2 status reason)
      from round_failure[where callback = callback, OF ch None cb 2] that show ?thesis
        by blast
    qed
    from Suc[of c' k' next_message "rounds @ [(om, message)]"]
    obtain found made where
      r: "negotiation_rounds tf lib callback i c' k' next_message (rounds @ [(om, message)])
           = Inr (found, (rounds @ [(om, message)]) @ made)"
      and l: "length made \<le> i"
      and f: "(case found of
            None \<Rightarrow> length made = i \<and> list_all (no_block lib) made
          | Some p \<Rightarrow> made \<noteq> [] \<and> list_all (no_block lib) (butlast made)
              \<and> extract_substring lib (snd (last made)) (str ''<FINALPROTOCOL>'') (str ''</FINALPROTOCOL>'')
                    = Some (p_document p)
              \<and> p = \<lparr>p_document = p_document p, p_sources = [],
                      p_metadata = extract_metadata lib (p_document p)\<rparr>)"
      by blast
    have nb: "no_block lib (om, message)" using None by (simp add: no_block_def)
    show ?thesis
      unfolding step r
      using l f nb
      by (intro exI[of _ found] exI[of _ "(om, message) # made"])
         (auto split: option.splits)
  qed
qed

text \<open>One round left and a first reply without a block: no protocol, after that one round.\<close>

lemma single_round_exhausted:
  assumes wf: "\<And>k m. readable (fst (callback k m))"
    and ch: "chat tf c om = (message, c')"
    and nb: "extract_substring lib message (str ''<FINALPROTOCOL>'') (str ''</FINALPROTOCOL>'') = None"
  shows "negotiation_rounds tf lib callback (Suc 0) c k om rounds
    = Inr (None, rounds @ [(om, message)])"
proof -
  obtain response k' where cb: "callback k message = (response, k')"
    by (cases "callback k message")
  have "readable response" using wf[of k message] cb by simp
  then show ?thesis
  proof (cases rule: readable_cases)
    case (1 body)
    from round_success[where callback = callback, OF ch nb cb 1] show ?thesis by simp
  next
    case (2 status reason)
    from round_failure[where callback = callback, OF ch nb cb 2] show ?thesis by simp
  qed
qed

text \<open>The rounds made are added to the list behind those it was given.\<close>

lemma rounds_extend:
  "negotiation_rounds tf lib callback i c k om rounds = Inr (found, made) \<Longrightarrow> prefix rounds made"
proof (induction i arbitrary: c k om rounds)
  case 0
  then show ?case by simp
next
  case (Suc i)
  have "prefix (rounds @ [(om, fst (chat tf c om))]) made"
    using Suc.prems Suc.IH
    by (auto simp: negotiation_rounds.simps(2) getitem_def
          split: prod.splits option.splits if_splits)
  then show ?case by (rule append_prefixD)
qed

lemma first_round_recorded:
  "negotiation_rounds tf lib callback (Suc i) c k om rounds = Inr (found, made)
   \<Longrightarrow> prefix (rounds @ [(om, fst (chat tf c om))]) made"
  using rounds_extend [of tf lib callback i]
  by (auto simp: negotiation_rounds.simps(2) getitem_def
        split: prod.splits option.splits if_splits)

text \<open>
  C4, as stated: for every bound and every sequence of responses of the counterparty
  the negotiation returns a protocol or none, and with one round and a first reply
  without a block it returns none, not an exception. With a bound of 1, a first reply
  without a block and a counterparty that answers with an empty dict, reading the status
  raises \<open>KeyError\<close>.
\<close>

theorem negotiation_counterexample:
  "extract_substring blocks
      (fst (chat settling (new_conversation settling
              (negotiator_prompt blocks (str ''You negotiate.'') (str ''{}'') []) (str ''negotiation''))
            (str ''Hello! How may I help you?'')))
      (str ''<FINALPROTOCOL>'') (str ''</FINALPROTOCOL>'') = None
   \<and> negotiate_protocol_for_task settling blocks (str ''You negotiate.'') 1 (str ''{}'') mute () []
       = Inl (KeyError ''status'')"
  by code_simp

text \<open>
  C4, amended. For every bound \<open>R\<close>, every backend and every other party whose responses
  can be read (a status, with a body on success and a message otherwise), the negotiation
  returns: it makes at most \<open>R\<close> rounds; it returns a protocol exactly from the block
  extracted from the last reply it received, and none only when \<open>R\<close> rounds passed and no
  reply held a block. With \<open>R = 1\<close> and a first reply without a block the result is none,
  after one round: a value, not an exception.
\<close>

theorem negotiation_bounded:
  assumes "\<forall>k m. readable (fst (callback k m))"
  shows "\<exists>found rounds.
      negotiate_protocol_for_task tf lib PROMPT R ts callback k info = Inr (found, rounds)
      \<and> length rounds \<le> nat R
      \<and> (case found of
            None \<Rightarrow> length rounds = nat R \<and> list_all (no_block lib) rounds
          | Some p \<Rightarrow> rounds \<noteq> [] \<and> list_all (no_block lib) (butlast rounds)
              \<and> extract_substring lib (snd (last rounds)) (str ''<FINALPROTOCOL>'')
                    (str ''</FINALPROTOCOL>'') = Some (p_document p)
              \<and> p = \<lparr>p_document = p_document p, p_sources = [],
                      p_metadata = extract_metadata lib (p_document p)\<rparr>)
      \<and> (R = 1
          \<and> extract_substring lib
              (fst (chat tf (new_conversation tf (negotiator_prompt lib PROMPT ts info)
                               (str ''negotiation''))
                      (str ''Hello! How may I help you?'')))
              (str ''<FINALPROTOCOL>'') (str ''</FINALPROTOCOL>'') = None
          \<longrightarrow> found = None \<and> length rounds = 1)"
proof -
  let ?c = "new_conversation tf (negotiator_prompt lib PROMPT ts info) (str ''negotiation'')"
  let ?hello = "(str ''Hello! How may I help you?'')"
  have wf: "\<And>k m. readable (fst (callback k m))" using assms by simp
  have run: "negotiate_protocol_for_task tf lib PROMPT R ts callback k info
      = negotiation_rounds tf lib callback (nat R) ?c k ?hello []"
    by (simp add: negotiate_protocol_for_task_def)
  show ?thesis
  proof (cases "R = 1 \<and> extract_substring lib (fst (chat tf ?c ?hello))
                  (str ''<FINALPROTOCOL>'') (str ''</FINALPROTOCOL>'') = None")
    case True
    obtain message c' where ch: "chat tf ?c ?hello = (message, c')"
      by (cases "chat tf ?c ?hello")
    with True have nb: "extract_substring lib message (str ''<FINALPROTOCOL>'') (str ''</FINALPROTOCOL>'')
        = None" by simp
    have "negotiation_rounds tf lib callback (Suc 0) ?c k ?hello []
        = Inr (None, [] @ [(?hello, message)])"
      using wf ch nb by (rule single_round_exhausted)
    then have "negotiate_protocol_for_task tf lib PROMPT R ts callback k info
        = Inr (None, [(?hello, message)])"
      using True by (simp add: negotiate_protocol_for_task_def)
    then show ?thesis
      using True nb
      by (intro exI[of _ None] exI[of _ "[(?hello, message)]"]) (simp add: no_block_def)
  next
    case False
    from rounds_invariant[where callback = callback and rounds = "[]", OF wf,
        of tf lib "nat R" ?c k ?hello]
    show ?thesis using False unfolding run by auto
  qed
qed

text \<open>
  The backend \<open>settling\<close> and the counterparty \<open>agreeing\<close>, with a bound of 10: the
  negotiation ends in the second round with the protocol of the block.
\<close>

theorem negotiation_bounded_witness:
  "(\<forall>k m. readable (fst (agreeing k m)))
   \<and> (\<exists>found rounds.
        negotiate_protocol_for_task settling blocks (str ''You negotiate.'') 10 (str ''{}'') agreeing () []
          = Inr (found, rounds)
        \<and> length rounds \<le> 10)"
proof -
  have h: "\<forall>k m. readable (fst (agreeing k m))"
    by (simp add: readable_def agreeing_def)
  from negotiation_bounded [OF h, of settling blocks "(str ''You negotiate.'')" 10 "(str ''{}'')" "()" "[]"]
  have "\<exists>found rounds.
        negotiate_protocol_for_task settling blocks (str ''You negotiate.'') 10 (str ''{}'') agreeing () []
          = Inr (found, rounds)
        \<and> length rounds \<le> nat 10"
    by blast
  with h show ?thesis by simp
qed

lemma settling_run:
  "negotiate_protocol_for_task settling blocks (str ''You negotiate.'') 10 (str ''{}'') agreeing () []
     = Inr (Some \<lparr>p_document = (str ''one JSON object per line''), p_sources = [], p_metadata = ()\<rparr>,
            [((str ''Hello! How may I help you?''), (str ''Which format do you accept?'')),
             ((str ''JSON, one object per line.''),
              (str ''<FINALPROTOCOL>one JSON object per line</FINALPROTOCOL>''))])"
  by code_simp

text \<open>
  C6, as stated: when no block is extracted and the callback returns a status other than
  \<open>success\<close>, the next message is the error report and the loop goes on. The counterparty
  \<open>curt\<close> answers with the status \<open>error\<close> and no message: reading the reason raises
  \<open>KeyError\<close> and ends the negotiation in its first round, with a round left.
\<close>

theorem counterparty_failure_counterexample:
  "extract_substring blocks (fst (chat settling 0 (str ''Hello! How may I help you?'')))
      (str ''<FINALPROTOCOL>'') (str ''</FINALPROTOCOL>'') = None
   \<and> r_status (fst (curt () (str ''Which format do you accept?''))) = Some (str ''error'')
   \<and> str ''error'' \<noteq> str ''success''
   \<and> negotiation_rounds settling blocks curt (Suc (Suc 0)) 0 ()
        (str ''Hello! How may I help you?'') []
      = Inl (KeyError ''message'')"
  by code_simp

text \<open>
  C6, amended. In a round whose reply holds no final protocol block and whose callback
  answers with a status other than \<open>success\<close> and with a message, the loop goes on with the
  rounds that are left; the next outgoing message is
  \<open>Error interacting with the other party: \<close> followed by that message. When a round is
  left, the backend receives the report next: the exchange is the next in the list of
  rounds of every run that returns.
\<close>

theorem counterparty_failure_is_soft:
  assumes "chat tf c om = (message, c')"
    and "extract_substring lib message (str ''<FINALPROTOCOL>'') (str ''</FINALPROTOCOL>'') = None"
    and "callback k message = (response, k')"
    and "r_status response = Some status" and "status \<noteq> (str ''success'')"
    and "r_message response = Some reason"
  shows "negotiation_rounds tf lib callback (Suc i) c k om rounds
      = negotiation_rounds tf lib callback i c' k'
          ((str ''Error interacting with the other party: '') @ reason) (rounds @ [(om, message)])
    \<and> (\<forall>found made.
          negotiation_rounds tf lib callback (Suc (Suc j)) c k om rounds = Inr (found, made)
          \<longrightarrow> prefix (rounds @ [(om, message),
                  ((str ''Error interacting with the other party: '') @ reason,
                   fst (chat tf c' ((str ''Error interacting with the other party: '') @ reason)))])
                made)"
proof -
  let ?report = "(str ''Error interacting with the other party: '') @ reason"
  have step: "\<And>i. negotiation_rounds tf lib callback (Suc i) c k om rounds
      = negotiation_rounds tf lib callback i c' k' ?report (rounds @ [(om, message)])"
    using round_failure[where callback = callback, OF assms] by simp
  have "prefix ((rounds @ [(om, message)]) @ [(?report, fst (chat tf c' ?report))]) made"
    if "negotiation_rounds tf lib callback (Suc (Suc j)) c k om rounds = Inr (found, made)"
    for found made
    using that unfolding step by (rule first_round_recorded)
  then show ?thesis using step by simp
qed

text \<open>
  The backend \<open>settling\<close> and the counterparty \<open>unreachable\<close>: the first round fails at
  the callback, the second sends the report and ends the negotiation with a protocol.
\<close>

theorem counterparty_failure_is_soft_witness:
  "chat settling 0 (str ''Hello! How may I help you?'') = ((str ''Which format do you accept?''), 1)
   \<and> extract_substring blocks (str ''Which format do you accept?'') (str ''<FINALPROTOCOL>'')
        (str ''</FINALPROTOCOL>'') = None
   \<and> unreachable () (str ''Which format do you accept?'')
        = (\<lparr>r_status = Some (str ''error''), r_body = None,
             r_message = Some (str ''connection refused'')\<rparr>, ())
   \<and> (str ''error'') \<noteq> (str ''success'')
   \<and> negotiation_rounds settling blocks unreachable (Suc (Suc 0)) 0 ()
        (str ''Hello! How may I help you?'') []
      = Inr (Some \<lparr>p_document = (str ''one JSON object per line''), p_sources = [],
                    p_metadata = ()\<rparr>,
             [((str ''Hello! How may I help you?''), (str ''Which format do you accept?'')),
              ((str ''Error interacting with the other party: connection refused''),
               (str ''<FINALPROTOCOL>one JSON object per line</FINALPROTOCOL>''))])"
proof -
  have 1: "chat settling 0 (str ''Hello! How may I help you?'') = ((str ''Which format do you accept?''), 1)"
    by (simp add: settling_def)
  have 2: "extract_substring blocks (str ''Which format do you accept?'') (str ''<FINALPROTOCOL>'')
        (str ''</FINALPROTOCOL>'') = None"
    by (simp add: blocks_def delimited_block_def str_def)
  have 3: "unreachable () (str ''Which format do you accept?'')
        = (\<lparr>r_status = Some (str ''error''), r_body = None,
             r_message = Some (str ''connection refused'')\<rparr>, ())"
    by (simp add: unreachable_def)
  have 4: "r_status \<lparr>r_status = Some (str ''error''), r_body = None,
             r_message = Some (str ''connection refused'')\<rparr> = Some (str ''error'')"
    and 5: "(str ''error'') \<noteq> (str ''success'')"
    and 6: "r_message \<lparr>r_status = Some (str ''error''), r_body = None,
             r_message = Some (str ''connection refused'')\<rparr> = Some (str ''connection refused'')"
    by (simp_all add: str_def)
  have "negotiation_rounds settling blocks unreachable (Suc (Suc 0)) 0 ()
        (str ''Hello! How may I help you?'') []
      = negotiation_rounds settling blocks unreachable (Suc 0) 1 ()
          ((str ''Error interacting with the other party: '') @ (str ''connection refused''))
          ([] @ [((str ''Hello! How may I help you?''), (str ''Which format do you accept?''))])"
    using counterparty_failure_is_soft [where callback = unreachable, OF 1 2 3 4 5 6,
        of "Suc 0" "[]" 0]
    by simp
  also have "\<dots> = Inr (Some \<lparr>p_document = (str ''one JSON object per line''), p_sources = [],
                    p_metadata = ()\<rparr>,
             [((str ''Hello! How may I help you?''), (str ''Which format do you accept?'')),
              ((str ''Error interacting with the other party: connection refused''),
               (str ''<FINALPROTOCOL>one JSON object per line</FINALPROTOCOL>''))])"
    by code_simp
  finally show ?thesis using 1 2 3 5 by simp
qed

section \<open>The programmer: sanitizing the block, exhausted attempts\<close>

lemma replace_Nil [simp]: "old \<noteq> [] \<Longrightarrow> py_replace old new [] = []"
  by (simp add: py_replace.simps)

lemma replace_match:
  "old \<noteq> [] \<Longrightarrow> py_replace old new (old @ s) = new @ py_replace old new s"
  by (subst py_replace.simps) simp

lemma replace_skip:
  "old \<noteq> [] \<Longrightarrow> \<not> prefix old (c # s) \<Longrightarrow> py_replace old new (c # s) = c # py_replace old new s"
  by (subst py_replace.simps) simp

lemma lead_simps [simp]:
  "lead [] = 0" "lead (c # s) = (if c = 0x60 then Suc (lead s) else 0)"
  by (simp_all add: lead_def)

lemma prefix_fence_iff: "prefix fence s \<longleftrightarrow> 3 \<le> lead s"
proof (cases s)
  case Nil
  then show ?thesis by (simp add: fence_def)
next
  case (Cons a s1)
  note s = this
  show ?thesis
  proof (cases s1)
    case Nil
    then show ?thesis using s by (simp add: fence_def)
  next
    case (Cons b s2)
    then show ?thesis using s by (cases s2) (auto simp add: fence_def)
  qed
qed

lemma lead_unfence: "lead (py_replace fence [] s) = lead s mod 3"
proof (induction s rule: length_induct)
  case (1 s)
  show ?case
  proof (cases "prefix fence s")
    case True
    then obtain s' where s: "s = fence @ s'" by (auto simp: prefix_def)
    have "lead s = 3 + lead s'" by (simp add: s fence_def)
    moreover have "py_replace fence [] s = py_replace fence [] s'"
      unfolding s by (subst replace_match) (simp_all add: fence_def)
    moreover have "lead (py_replace fence [] s') = lead s' mod 3"
      using 1 by (simp add: s fence_def)
    ultimately show ?thesis by simp
  next
    case False
    show ?thesis
    proof (cases s)
      case Nil
      then show ?thesis by (simp add: fence_def)
    next
      case (Cons c t)
      have r: "py_replace fence [] s = c # py_replace fence [] t"
        using False Cons by (simp add: replace_skip fence_def)
      have ih: "lead (py_replace fence [] t) = lead t mod 3"
        using 1 Cons by simp
      have "lead s < 3" using False by (simp add: prefix_fence_iff)
      then show ?thesis
        using r ih Cons by (auto split: if_splits)
    qed
  qed
qed

lemma unfence_no_fence: "\<not> sublist fence (py_replace fence [] s)"
proof (induction s rule: length_induct)
  case (1 s)
  show ?case
  proof (cases "prefix fence s")
    case True
    then obtain s' where s: "s = fence @ s'" by (auto simp: prefix_def)
    have "py_replace fence [] s = py_replace fence [] s'"
      unfolding s by (subst replace_match) (simp_all add: fence_def)
    moreover have "\<not> sublist fence (py_replace fence [] s')"
      using 1 by (simp add: s fence_def)
    ultimately show ?thesis by simp
  next
    case False
    show ?thesis
    proof (cases s)
      case Nil
      then show ?thesis by (simp add: fence_def)
    next
      case (Cons c t)
      have r: "py_replace fence [] s = c # py_replace fence [] t"
        using False Cons by (simp add: replace_skip fence_def)
      have ih: "\<not> sublist fence (py_replace fence [] t)"
        using 1 Cons by simp
      have "lead (py_replace fence [] s) < 3"
        by (simp add: lead_unfence)
      then have "\<not> prefix fence (py_replace fence [] s)"
        by (simp add: prefix_fence_iff)
      then show ?thesis
        using r ih by (simp add: sublist_Cons_right)
    qed
  qed
qed

lemma strip_sublist: "sublist (py_strip s) s"
proof -
  have "sublist (dropWhile py_isspace (rev (dropWhile py_isspace s))) (rev (dropWhile py_isspace s))"
    by simp
  then have "sublist (py_strip s) (dropWhile py_isspace s)"
    unfolding py_strip_def by (simp add: sublist_rev_left)
  moreover have "sublist (dropWhile py_isspace s) s" by simp
  ultimately show ?thesis by (rule sublist_order.order_trans)
qed

lemma strip_keeps_absent: "\<not> sublist p s \<Longrightarrow> \<not> sublist p (py_strip s)"
  using strip_sublist sublist_order.order_trans by blast

lemma lead_replace_other:
  assumes "old \<noteq> []" "new \<noteq> []" "hd old \<noteq> 0x60" "hd new \<noteq> 0x60"
  shows "lead (py_replace old new s) = lead s"
proof (induction s)
  case Nil
  then show ?case using assms by simp
next
  case (Cons c t)
  show ?case
  proof (cases "prefix old (c # t)")
    case True
    then obtain s' where s: "c # t = old @ s'" by (auto simp: prefix_def)
    then have "c = hd old" using assms(1) by (cases old) auto
    then have "lead (c # t) = 0" using assms by simp
    moreover have "lead (py_replace old new (c # t)) = 0"
      using assms by (cases new) (simp_all add: s replace_match)
    ultimately show ?thesis by simp
  next
    case False
    then show ?thesis using Cons assms by (simp add: replace_skip)
  qed
qed

lemma sublist_skip_other:
  assumes "sublist p (a @ s)" "p \<noteq> []" "hd p \<notin> set a"
  shows "sublist p s"
  using assms
proof (induction a)
  case Nil
  then show ?case by simp
next
  case (Cons x a)
  from Cons.prems have "\<not> prefix p (x # a @ s)"
    by (cases p) auto
  with Cons.prems have "sublist p (a @ s)" by (simp add: sublist_Cons_right)
  with Cons show ?case by simp
qed

lemma replace_other_no_fence:
  assumes "old \<noteq> []" "new \<noteq> []" "0x60 \<notin> set old" "0x60 \<notin> set new"
  shows "\<not> sublist fence s \<Longrightarrow> \<not> sublist fence (py_replace old new s)"
proof (induction s rule: length_induct)
  case (1 s)
  have h: "hd old \<noteq> 0x60" "hd new \<noteq> 0x60" using assms by (cases old; cases new; auto)+
  show ?case
  proof (cases "prefix old s")
    case True
    then obtain s' where s: "s = old @ s'" by (auto simp: prefix_def)
    have "\<not> sublist fence s'" using 1(2) s by (auto simp: sublist_append)
    then have ih: "\<not> sublist fence (py_replace old new s')"
      using 1(1) s assms(1) by simp
    have "\<not> sublist fence (new @ py_replace old new s')"
    proof
      assume "sublist fence (new @ py_replace old new s')"
      then have "sublist fence (py_replace old new s')"
        by (rule sublist_skip_other) (use assms in \<open>simp_all add: fence_def\<close>)
      with ih show False ..
    qed
    then show ?thesis by (simp add: s replace_match assms(1))
  next
    case False
    show ?thesis
    proof (cases s)
      case Nil
      then show ?thesis using assms by (simp add: fence_def)
    next
      case (Cons c t)
      have r: "py_replace old new s = c # py_replace old new t"
        using False Cons assms by (simp add: replace_skip)
      have "\<not> sublist fence t" using 1(2) Cons by (simp add: sublist_Cons_right)
      then have ih: "\<not> sublist fence (py_replace old new t)"
        using 1(1) Cons by simp
      have "lead (py_replace old new s) = lead s"
        using assms(1,2) h by (rule lead_replace_other)
      moreover have "\<not> prefix fence s" using 1(2) by auto
      ultimately have "\<not> prefix fence (py_replace old new s)"
        by (simp add: prefix_fence_iff)
      then show ?thesis
        using r ih by (simp add: sublist_Cons_right)
    qed
  qed
qed

lemma strip_keeps_present:
  assumes "sublist p s" "p \<noteq> []" "\<not> py_isspace (hd p)" "\<not> py_isspace (last p)"
  shows "sublist p (py_strip s)"
proof -
  from assms(1) obtain a b where s: "s = a @ p @ b" by (auto simp: sublist_def)
  have front: "\<exists>a'. dropWhile py_isspace (a @ p @ b) = a' @ p @ b"
  proof (cases "\<forall>x\<in>set a. py_isspace x")
    case True
    then have "dropWhile py_isspace (a @ p @ b) = dropWhile py_isspace (p @ b)"
      by (simp add: dropWhile_append)
    also have "\<dots> = p @ b" using assms(2,3) by (cases p) auto
    finally show ?thesis by (intro exI[of _ "[]"]) simp
  next
    case False
    then have "dropWhile py_isspace (a @ p @ b) = dropWhile py_isspace a @ p @ b"
      by (auto simp add: dropWhile_append)
    then show ?thesis by blast
  qed
  then obtain a' where a': "dropWhile py_isspace s = a' @ p @ b" unfolding s by blast
  have rear: "\<exists>b'. dropWhile py_isspace (rev b @ rev p @ rev a') = b' @ rev p @ rev a'"
  proof (cases "\<forall>x\<in>set (rev b). py_isspace x")
    case True
    then have "dropWhile py_isspace (rev b @ rev p @ rev a') = dropWhile py_isspace (rev p @ rev a')"
      by (simp add: dropWhile_append)
    also have "\<dots> = rev p @ rev a'" using assms(2,4) by (cases "rev p") (auto simp: hd_rev)
    finally show ?thesis by (intro exI[of _ "[]"]) simp
  next
    case False
    then have "dropWhile py_isspace (rev b @ rev p @ rev a')
        = dropWhile py_isspace (rev b) @ rev p @ rev a'"
      by (auto simp add: dropWhile_append)
    then show ?thesis by blast
  qed
  then obtain b' where "dropWhile py_isspace (rev b @ rev p @ rev a') = b' @ rev p @ rev a'"
    by blast
  then have "py_strip s = a' @ p @ rev b'"
    by (simp add: py_strip_def a')
  then show ?thesis by (simp add: sublist_def) blast
qed

lemma replace_keeps_prefix:
  assumes "old \<noteq> []"
  shows "prefix p s \<Longrightarrow> hd old \<notin> set p \<Longrightarrow> prefix p (py_replace old new s)"
proof (induction p arbitrary: s)
  case Nil
  then show ?case by simp
next
  case (Cons x p)
  then obtain s' where s: "s = x # s'" and p: "prefix p s'" by (cases s) auto
  have "\<not> prefix old (x # s')" using Cons.prems(2) assms by (cases old) auto
  then have "py_replace old new s = x # py_replace old new s'"
    using assms by (simp add: s replace_skip)
  moreover have "prefix p (py_replace old new s')"
    using Cons.IH[OF p] Cons.prems(2) by simp
  ultimately show ?case by simp
qed

lemma replace_keeps_present:
  assumes "old \<noteq> []" "p \<noteq> []" "hd p \<notin> set old" "hd old \<notin> set p"
  shows "sublist p s \<Longrightarrow> sublist p (py_replace old new s)"
proof (induction s rule: length_induct)
  case (1 s)
  show ?case
  proof (cases "prefix old s")
    case True
    then obtain s' where s: "s = old @ s'" by (auto simp: prefix_def)
    have "sublist p s'" using 1(2) assms(2,3) unfolding s by (rule sublist_skip_other)
    then have "sublist p (py_replace old new s')"
      using 1(1) s assms(1) by simp
    then have "sublist p (new @ py_replace old new s')"
      by (metis sublist_append)
    then show ?thesis by (simp add: s replace_match assms(1))
  next
    case False
    show ?thesis
    proof (cases s)
      case Nil
      then show ?thesis using 1(2) assms by simp
    next
      case (Cons c t)
      have r: "py_replace old new s = c # py_replace old new t"
        using False Cons assms by (simp add: replace_skip)
      from 1(2) Cons consider "prefix p s" | "sublist p t"
        by (auto simp: sublist_Cons_right)
      then show ?thesis
      proof cases
        case 1
        then have "prefix p (py_replace old new s)"
          using assms(1,4) by (simp add: replace_keeps_prefix)
        then show ?thesis by (rule prefix_imp_sublist)
      next
        case 2
        then have "sublist p (py_replace old new t)"
          using "1.IH" Cons by simp
        then show ?thesis by (simp add: r sublist_Cons_right)
      qed
    qed
  qed
qed

lemma replace_puts_new:
  assumes "old \<noteq> []"
  shows "sublist old s \<Longrightarrow> sublist new (py_replace old new s)"
proof (induction s rule: length_induct)
  case (1 s)
  show ?case
  proof (cases "prefix old s")
    case True
    then obtain s' where s: "s = old @ s'" by (auto simp: prefix_def)
    show ?thesis by (simp add: s replace_match assms)
  next
    case False
    show ?thesis
    proof (cases s)
      case Nil
      then show ?thesis using 1(2) assms by simp
    next
      case (Cons c t)
      have r: "py_replace old new s = c # py_replace old new t"
        using False Cons assms by (simp add: replace_skip)
      from 1(2) Cons False have "sublist old t"
        by (auto simp: sublist_Cons_right)
      then have "sublist new (py_replace old new t)"
        using "1.IH" Cons by simp
      then show ?thesis by (simp add: r sublist_Cons_right)
    qed
  qed
qed

text \<open>The block of the first reply that holds one is the block the loop ends with.\<close>

lemma attempt_without_block:
  assumes "extract_substring lib (fst (chat tf c m)) (str ''<IMPLEMENTATION>'')
      (str ''</IMPLEMENTATION>'') = None"
  shows "programmer_attempts tf lib (Suc i) c m v
      = programmer_attempts tf lib i (snd (chat tf c m)) nudge (Bound None)"
  using assms by (cases "chat tf c m") simp

lemma attempt_with_block:
  assumes "extract_substring lib (fst (chat tf c m)) (str ''<IMPLEMENTATION>'')
      (str ''</IMPLEMENTATION>'') = Some block"
  shows "programmer_attempts tf lib (Suc i) c m v = Bound (Some block)"
  using assms by (cases "chat tf c m") simp

lemma attempts_reach_block:
  assumes "i < n"
    and "\<forall>j<i. extract_substring lib (attempt_reply tf c m j) (str ''<IMPLEMENTATION>'')
      (str ''</IMPLEMENTATION>'') = None"
    and "extract_substring lib (attempt_reply tf c m i) (str ''<IMPLEMENTATION>'')
      (str ''</IMPLEMENTATION>'') = Some block"
  shows "programmer_attempts tf lib n c m v = Bound (Some block)"
  using assms
proof (induction i arbitrary: n c m v)
  case 0
  then obtain n' where "n = Suc n'" by (cases n) auto
  with 0 show ?case by (simp add: attempt_with_block del: programmer_attempts.simps)
next
  case (Suc i)
  then obtain n' where n: "n = Suc n'" "i < n'" by (cases n) auto
  have first: "extract_substring lib (fst (chat tf c m)) (str ''<IMPLEMENTATION>'')
      (str ''</IMPLEMENTATION>'') = None"
    using Suc.prems(2)[rule_format, of 0] by simp
  have later: "\<forall>j<i. extract_substring lib (attempt_reply tf (snd (chat tf c m)) nudge j)
      (str ''<IMPLEMENTATION>'') (str ''</IMPLEMENTATION>'') = None"
  proof (intro allI impI)
    fix j assume "j < i"
    then show "extract_substring lib (attempt_reply tf (snd (chat tf c m)) nudge j)
      (str ''<IMPLEMENTATION>'') (str ''</IMPLEMENTATION>'') = None"
      using Suc.prems(2)[rule_format, of "Suc j"] by simp
  qed
  have "programmer_attempts tf lib n' (snd (chat tf c m)) nudge (Bound None) = Bound (Some block)"
    using n(2) later Suc.prems(3) by (intro Suc.IH) simp_all
  then show ?case
    unfolding n(1) attempt_without_block[OF first] .
qed

lemma call_extracted:
  "programmer_attempts tf lib (nat N) (new_conversation tf PROMPT (str ''programming''))
      (programmer_message lib ts doc) Unbound = Bound (Some block)
   \<Longrightarrow> SenderProgrammer_call tf lib PROMPT N ts doc = Inr (cleaned block)"
  by (simp add: SenderProgrammer_call_def cleaned_def)

lemma cleaned_no_fence: "\<not> sublist fence (cleaned block)"
  unfolding cleaned_def
  by (rule replace_other_no_fence)
    (simp_all add: strip_keeps_absent unfence_no_fence str_def)

lemma cleaned_entry_point:
  assumes "sublist (str ''def send_query('') block"
  shows "sublist (str ''def run('') (cleaned block)"
proof -
  let ?p = "str ''def send_query(''"
  have 1: "sublist ?p (py_strip block)"
    using assms by (rule strip_keeps_present) (simp_all add: py_isspace_def str_def)
  have 2: "sublist ?p (py_replace (fence @ str ''python'') [] (py_strip block))"
    by (rule replace_keeps_present[OF _ _ _ _ 1]) (simp_all add: fence_def str_def)
  have 3: "sublist ?p
      (py_replace fence [] (py_replace (fence @ str ''python'') [] (py_strip block)))"
    by (rule replace_keeps_present[OF _ _ _ _ 2]) (simp_all add: fence_def str_def)
  have 4: "sublist ?p
      (py_strip (py_replace fence []
         (py_replace (fence @ str ''python'') [] (py_strip block))))"
    using 3 by (rule strip_keeps_present) (simp_all add: py_isspace_def str_def)
  show ?thesis unfolding cleaned_def
    by (rule replace_puts_new[OF _ 4]) (simp add: str_def)
qed

text \<open>
  C9, as stated: on successful extraction the returned text contains the canonical entry
  point and no residual fence marker. A block that declares \<open>def send_query (\<close>, with a
  blank before the parenthesis, comes back as it is, without \<open>def run(\<close>; and of a fence
  opened with the tag \<open>py\<close> the tag stays in the text.
\<close>

theorem extracted_block_counterexample:
  "SenderProgrammer_call
      (replying (str ''<IMPLEMENTATION>def send_query (task_data): pass</IMPLEMENTATION>''))
      blocks (str ''You program.'') 5 (str ''{}'') (str ''one JSON object per line'')
     = Inr (str ''def send_query (task_data): pass'')
   \<and> \<not> py_in (str ''def run('') (str ''def send_query (task_data): pass'')
   \<and> SenderProgrammer_call
      (replying (str ''<IMPLEMENTATION>'' @ fence @ str ''py'' @ [0xA]
         @ str ''def send_query(d): pass'' @ [0xA] @ fence @ str ''</IMPLEMENTATION>''))
      blocks (str ''You program.'') 5 (str ''{}'') (str ''one JSON object per line'')
     = Inr (str ''py'' @ [0xA] @ str ''def run(d): pass'')"
  by code_simp

text \<open>
  C9, amended. When the reply to an attempt within the bound holds a block and no earlier
  reply does, the call returns that block trimmed, with every \<open>```python\<close> and then every
  \<open>```\<close> removed, trimmed again, and with every \<open>def send_query(\<close> replaced by
  \<open>def run(\<close>. The returned text holds no three backticks in a row, and it holds
  \<open>def run(\<close> when the block holds \<open>def send_query(\<close>.
\<close>

theorem extracted_block_sanitized:
  assumes "i < nat N"
    and "\<forall>j<i. extract_substring lib
        (attempt_reply tf (new_conversation tf PROMPT (str ''programming''))
           (programmer_message lib ts doc) j)
        (str ''<IMPLEMENTATION>'') (str ''</IMPLEMENTATION>'') = None"
    and "extract_substring lib
        (attempt_reply tf (new_conversation tf PROMPT (str ''programming''))
           (programmer_message lib ts doc) i)
        (str ''<IMPLEMENTATION>'') (str ''</IMPLEMENTATION>'') = Some block"
  shows "SenderProgrammer_call tf lib PROMPT N ts doc
      = Inr (py_replace (str ''def send_query('') (str ''def run('')
               (py_strip (py_replace fence []
                  (py_replace (fence @ str ''python'') [] (py_strip block)))))
    \<and> \<not> py_in fence (cleaned block)
    \<and> (py_in (str ''def send_query('') block \<longrightarrow> py_in (str ''def run('') (cleaned block))"
proof -
  have "programmer_attempts tf lib (nat N) (new_conversation tf PROMPT (str ''programming''))
      (programmer_message lib ts doc) Unbound = Bound (Some block)"
    using assms by (rule attempts_reach_block)
  from call_extracted[OF this] cleaned_no_fence[of block] cleaned_entry_point[of block]
  show ?thesis by (simp add: py_in_sublist cleaned_def)
qed

text \<open>
  The backend \<open>slow_coder\<close> answers the first message without a block and the nudge with
  a fenced implementation of \<open>send_query\<close>.
\<close>

theorem extracted_block_sanitized_witness:
  "(1::nat) < nat 5
   \<and> extract_substring blocks
        (attempt_reply slow_coder (new_conversation slow_coder (str ''You program.'')
             (str ''programming''))
           (programmer_message blocks (str ''{}'') (str ''one JSON object per line'')) 0)
        (str ''<IMPLEMENTATION>'') (str ''</IMPLEMENTATION>'') = None
   \<and> extract_substring blocks
        (attempt_reply slow_coder (new_conversation slow_coder (str ''You program.'')
             (str ''programming''))
           (programmer_message blocks (str ''{}'') (str ''one JSON object per line'')) 1)
        (str ''<IMPLEMENTATION>'') (str ''</IMPLEMENTATION>'')
       = Some (fence @ str ''python'' @ [0xA] @ str ''def send_query(task_data):'' @ [0xA]
                @ str ''  return {}'' @ [0xA] @ fence)
   \<and> SenderProgrammer_call slow_coder blocks (str ''You program.'') 5 (str ''{}'')
        (str ''one JSON object per line'')
       = Inr (str ''def run(task_data):'' @ [0xA] @ str ''  return {}'')"
proof -
  let ?block = "fence @ str ''python'' @ [0xA] @ str ''def send_query(task_data):'' @ [0xA]
                @ str ''  return {}'' @ [0xA] @ fence"
  have 1: "(1::nat) < nat 5" by simp
  have 0: "extract_substring blocks
        (attempt_reply slow_coder (new_conversation slow_coder (str ''You program.'')
             (str ''programming''))
           (programmer_message blocks (str ''{}'') (str ''one JSON object per line'')) 0)
        (str ''<IMPLEMENTATION>'') (str ''</IMPLEMENTATION>'') = None"
    by code_simp
  then have 2: "\<forall>j<1. extract_substring blocks
        (attempt_reply slow_coder (new_conversation slow_coder (str ''You program.'')
             (str ''programming''))
           (programmer_message blocks (str ''{}'') (str ''one JSON object per line'')) j)
        (str ''<IMPLEMENTATION>'') (str ''</IMPLEMENTATION>'') = None"
    by simp
  have 3: "extract_substring blocks
        (attempt_reply slow_coder (new_conversation slow_coder (str ''You program.'')
             (str ''programming''))
           (programmer_message blocks (str ''{}'') (str ''one JSON object per line'')) 1)
        (str ''<IMPLEMENTATION>'') (str ''</IMPLEMENTATION>'') = Some ?block"
    by code_simp
  have 4: "py_replace (str ''def send_query('') (str ''def run('')
               (py_strip (py_replace fence []
                  (py_replace (fence @ str ''python'') [] (py_strip ?block))))
      = str ''def run(task_data):'' @ [0xA] @ str ''  return {}''"
    by code_simp
  from extracted_block_sanitized [OF 1 2 3] 0 1 3 show ?thesis
    unfolding 4 by blast
qed

lemma call_never:
  assumes "\<And>c m. extract_substring lib (fst (chat tf c m)) (str ''<IMPLEMENTATION>'')
      (str ''</IMPLEMENTATION>'') = None" "0 < N"
  shows "SenderProgrammer_call tf lib PROMPT N ts doc = Inl (AttributeError ''strip'')"
proof -
  have never: "programmer_attempts tf lib (Suc i) c m v = Bound None" for i c m v
  proof (induction i arbitrary: c m v)
    case 0
    show ?case by (simp only: attempt_without_block[OF assms(1)] programmer_attempts.simps(1))
  next
    case (Suc i)
    show ?case by (subst attempt_without_block[OF assms(1)]) (rule Suc)
  qed
  obtain i where "nat N = Suc i" using assms(2) by (cases "nat N") auto
  then show ?thesis
    by (simp add: SenderProgrammer_call_def never del: programmer_attempts.simps)
qed

lemma call_no_attempt:
  "N \<le> 0 \<Longrightarrow>
   SenderProgrammer_call tf lib PROMPT N ts doc = Inl (UnboundLocalError ''implementation'')"
  by (simp add: SenderProgrammer_call_def)

text \<open>
  C5. When no reply of the backend holds an implementation block, the call does not fail
  with a condition of its own: with one attempt or more it raises the \<open>AttributeError\<close> of
  \<open>None.strip\<close>, with none the \<open>UnboundLocalError\<close> of the variable \<open>implementation\<close>.
\<close>

theorem exhausted_attempts_raise:
  assumes "\<forall>c m. extract_substring lib (fst (chat tf c m)) (str ''<IMPLEMENTATION>'')
      (str ''</IMPLEMENTATION>'') = None"
  shows "(0 < N \<longrightarrow> SenderProgrammer_call tf lib PROMPT N ts doc = Inl (AttributeError ''strip''))
    \<and> (N \<le> 0 \<longrightarrow> SenderProgrammer_call tf lib PROMPT N ts doc
          = Inl (UnboundLocalError ''implementation''))"
  using call_never[of lib tf N PROMPT ts doc] call_no_attempt[of N tf lib PROMPT ts doc] assms
  by auto

theorem exhausted_attempts_raise_witness:
  "(\<forall>c m. extract_substring blocks (fst (chat silent c m)) (str ''<IMPLEMENTATION>'')
      (str ''</IMPLEMENTATION>'') = None)
   \<and> (0::int) < 5
   \<and> SenderProgrammer_call silent blocks (str ''You program.'') 5 (str ''{}'')
        (str ''one JSON object per line'')
       = Inl (AttributeError ''strip'')"
proof -
  have h: "\<forall>c m. extract_substring blocks (fst (chat silent c m)) (str ''<IMPLEMENTATION>'')
      (str ''</IMPLEMENTATION>'') = None"
    by (simp add: blocks_def silent_def delimited_block_def str_def)
  from exhausted_attempts_raise [OF h, of 5 "str ''You program.''" "str ''{}''"
      "str ''one JSON object per line''"] h
  show ?thesis by simp
qed

end
